theory Spec2Isabelle
  imports Complex_Main "HOL-Library.Word"
begin

section \<open>Calibration of a MIMO radar array: the model of calibrate.py\<close>

text \<open>
  The development embeds the two calibration routines of \<^verbatim>\<open>calibrate.py\<close>,
  \<^verbatim>\<open>coupling_calibration\<close> and \<^verbatim>\<open>waveform_calibration\<close>, and the numpy
  operations they call.

  Conventions of the model.
  \<^item> The input file is the list of its bytes.  The 16-bit samples are words.
  \<^item> A numpy array of several dimensions is a nested list, outermost axis first.
  \<^item> A Python exception is a value of \<open>error\<close>; a function that can raise returns
    \<open>error + 'a\<close>, with \<open>Inl\<close> for the exception.
  \<^item> A float64 is idealised as a real number: rounding is not modelled.  A division
    by zero is modelled as the source has it: between Python floats it raises
    \<open>ZeroDivisionError\<close>, inside numpy it yields a NaN or an infinity, which is the
    value \<open>NonFinite\<close> of the type \<open>float64\<close>.
  \<^item> The division of complex128 values is not idealised: numpy computes it in several
    rounded steps, and even the quotient of a value by itself need not be 1.  Its result
    for a divisor other than zero is a parameter \<open>cdiv\<close> of the model, about which
    nothing is assumed.
  \<^item> Array dimensions are natural numbers; numpy's placeholder \<open>-1\<close> in a shape is
    outside the model.
\<close>

subsection \<open>Errors and numbers\<close>

datatype error = ValueError | ZeroDivisionError | IndexError

datatype float64 = Finite real | NonFinite

subsection \<open>Loading a frame\<close>

text \<open>
  \<^verbatim>\<open>np.fromfile(filename, dtype=np.int16, count=-1)\<close> reads as many whole
  items of two bytes as the file holds, least significant byte first; a trailing odd
  byte is left unread.
\<close>

fun fromfile_int16 :: "8 word list \<Rightarrow> 16 word list" where
  "fromfile_int16 (b0 # b1 # bs) = (word_cat b1 b0 :: 16 word) # fromfile_int16 bs"
| "fromfile_int16 bs = []"

text \<open>
  \<open>split_rows m n xs\<close> cuts the first \<open>m * n\<close> elements of a flat row-major
  buffer into \<open>m\<close> consecutive rows of \<open>n\<close> elements.
\<close>

definition split_rows :: "nat \<Rightarrow> nat \<Rightarrow> 'a list \<Rightarrow> 'a list list" where
  "split_rows m n xs = map (\<lambda>i. take n (drop (i * n) xs)) [0..<m]"

text \<open>
  \<^verbatim>\<open>a.reshape(d0, d1, d2, d3, d4)\<close>: raises \<open>ValueError\<close> unless the number of
  elements is the product of the dimensions.
\<close>

definition reshape5 ::
  "'a list \<Rightarrow> nat \<Rightarrow> nat \<Rightarrow> nat \<Rightarrow> nat \<Rightarrow> nat \<Rightarrow> error + 'a list list list list list" where
  "reshape5 xs d0 d1 d2 d3 d4 =
     (if length xs \<noteq> d0 * d1 * d2 * d3 * d4 then Inl ValueError
      else Inr (map (\<lambda>a. map (\<lambda>b. map (\<lambda>c. split_rows d3 d4 c)
                                   (split_rows d2 (d3 * d4) b))
                         (split_rows d1 (d2 * d3 * d4) a))
                (split_rows d0 (d1 * d2 * d3 * d4) xs)))"

text \<open>
  The expression both routines start with:
  \<^verbatim>\<open>np.fromfile(filename, dtype=np.int16, count=-1).reshape(ntx, nrx, nc, ns, 2)\<close>.
\<close>

definition load_frame ::
  "8 word list \<Rightarrow> nat \<Rightarrow> nat \<Rightarrow> nat \<Rightarrow> nat \<Rightarrow> error + 16 word list list list list list" where
  "load_frame buf n_tx n_rx nc ns = reshape5 (fromfile_int16 buf) n_tx n_rx nc ns 2"

subsection \<open>Sequencing of computations that can raise\<close>

definition bind_err :: "error + 'a \<Rightarrow> ('a \<Rightarrow> error + 'b) \<Rightarrow> error + 'b" where
  "bind_err m f = (case m of Inl e \<Rightarrow> Inl e | Inr x \<Rightarrow> f x)"

fun mapM_err :: "('a \<Rightarrow> error + 'b) \<Rightarrow> 'a list \<Rightarrow> error + 'b list" where
  "mapM_err f [] = Inr []"
| "mapM_err f (x # xs) =
     bind_err (f x) (\<lambda>y. bind_err (mapM_err f xs) (\<lambda>ys. Inr (y # ys)))"

text \<open>\<^verbatim>\<open>a[0, 0]\<close> on an array of two dimensions: \<open>IndexError\<close> when an axis is empty.\<close>

definition item00 :: "'a list list \<Rightarrow> error + 'a" where
  "item00 a =
     (case a of
        [] \<Rightarrow> Inl IndexError
      | r # _ \<Rightarrow> (case r of [] \<Rightarrow> Inl IndexError | x # _ \<Rightarrow> Inr x))"

subsection \<open>Coupling calibration\<close>

text \<open>
  \<^verbatim>\<open>np.mean\<close> of a list of 16-bit samples, as a float64: the sum divided by the
  count; the mean of no sample at all is a NaN.
\<close>

definition mean :: "16 word list \<Rightarrow> float64" where
  "mean xs = (if xs = [] then NonFinite
              else Finite (real_of_int (sum_list (map sint xs)) / real (length xs)))"

text \<open>
  \<^verbatim>\<open>np.mean(frame, axis=(2, 3))\<close> on the block \<open>frame[tx, rx]\<close>, of shape
  \<open>(nc, ns, 2)\<close>: for each of the two components, the mean over every chirp and every
  sample.
\<close>

definition mean_axes23 :: "16 word list list list \<Rightarrow> float64 list" where
  "mean_axes23 block = map (\<lambda>k. mean (map (\<lambda>iq. iq ! k) (concat block))) [0..<2]"

definition coupling_calibration ::
  "8 word list \<Rightarrow> nat \<Rightarrow> nat \<Rightarrow> nat \<Rightarrow> nat \<Rightarrow> error + float64 list list list" where
  "coupling_calibration buf n_tx n_rx nc ns =
     bind_err (load_frame buf n_tx n_rx nc ns)
       (\<lambda>frame. Inr (map (map mean_axes23) frame))"

subsection \<open>Waveform calibration: the configuration and the reference window\<close>

record config =
  cfg_ntx :: nat
  cfg_nrx :: nat
  numChirpLoops :: nat
  numAdcSamples :: nat
  frequencySlope_Mhz_us :: real
  adcSamplingFrequency_ksps :: real

definition fslope :: "config \<Rightarrow> real" where
  "fslope cfg = frequencySlope_Mhz_us cfg * 10 ^ 12"

definition fsample :: "config \<Rightarrow> real" where
  "fsample cfg = adcSamplingFrequency_ksps cfg * 10 ^ 3"

definition C :: real where
  "C = 299792458"

text \<open>Division of two Python floats raises on a zero divisor.\<close>

definition py_truediv :: "real \<Rightarrow> real \<Rightarrow> error + real" where
  "py_truediv a b = (if b = 0 then Inl ZeroDivisionError else Inr (a / b))"

text \<open>\<^verbatim>\<open>int(x)\<close> of a Python float rounds towards zero.\<close>

definition py_int :: "real \<Rightarrow> int" where
  "py_int x = (if 0 \<le> x then \<lfloor>x\<rfloor> else \<lceil>x\<rceil>)"

definition ref_bins :: "config \<Rightarrow> real \<Rightarrow> error + (int \<times> int)" where
  "ref_bins cfg ref =
     bind_err (py_truediv (fsample cfg * C) (2 * fslope cfg)) (\<lambda>rmax.
     bind_err (py_truediv rmax (real (numAdcSamples cfg))) (\<lambda>rres.
     bind_err (py_truediv (ref - 1) rres) (\<lambda>lo.
     bind_err (py_truediv (ref + 1) rres) (\<lambda>hi.
     Inr (py_int lo, py_int hi)))))"

subsection \<open>Waveform calibration: the range profile\<close>

text \<open>\<^verbatim>\<open>frame[:, :, :, :, 0] + 1j * frame[:, :, :, :, 1]\<close>\<close>

definition to_complex :: "16 word list list list list list \<Rightarrow> complex list list list list" where
  "to_complex frame =
     map (map (map (map (\<lambda>iq. Complex (real_of_int (sint (iq ! 0)))
                                       (real_of_int (sint (iq ! 1))))))) frame"

text \<open>
  \<^verbatim>\<open>np.fft.fft(a, n, -1)\<close> on one row: the row is cut or padded with zeros to
  \<open>n\<close> samples, then transformed.
\<close>

definition fft :: "nat \<Rightarrow> complex list \<Rightarrow> complex list" where
  "fft n xs =
     (let ys = take n xs @ replicate (n - length xs) 0
      in map (\<lambda>k. sum_list (map (\<lambda>j. ys ! j * cis (- 2 * pi * real k * real j / real n))
                               [0..<n]))
             [0..<n])"

text \<open>\<^verbatim>\<open>np.sum(a, -2)\<close> on a block of rows of \<open>n\<close> samples.\<close>

definition sum_rows :: "nat \<Rightarrow> complex list list \<Rightarrow> complex list" where
  "sum_rows n rows = map (\<lambda>k. sum_list (map (\<lambda>r. r ! k) rows)) [0..<n]"

definition range_profile :: "nat \<Rightarrow> complex list list list list \<Rightarrow> complex list list list" where
  "range_profile ns frame = map (map (\<lambda>chirps. sum_rows ns (map (fft ns) chirps))) frame"

subsection \<open>Waveform calibration: the peak search\<close>

text \<open>
  A bound of a Python slice on an axis of length \<open>n\<close>: a negative bound counts from the
  end, and every bound is clipped to the axis.
\<close>

definition slice_index :: "int \<Rightarrow> nat \<Rightarrow> nat" where
  "slice_index i n = (if i < 0 then nat (max 0 (i + int n)) else min (nat i) n)"

definition py_slice :: "int \<Rightarrow> int \<Rightarrow> 'a list \<Rightarrow> 'a list" where
  "py_slice lo hi xs =
     (let n = length xs; start = slice_index lo n; stop = slice_index hi n
      in take (stop - start) (drop start xs))"

text \<open>
  numpy orders complex numbers by their real parts, then by their imaginary parts.
\<close>

definition cgt :: "complex \<Rightarrow> complex \<Rightarrow> bool" where
  "cgt a b \<longleftrightarrow> Re a > Re b \<or> (Re a = Re b \<and> Im a > Im b)"

text \<open>
  \<^verbatim>\<open>np.argmax\<close> on one row: the scan keeps the first of the largest elements.
  \<open>argmax_loop mp mi i xs\<close> is the scan at position \<open>i\<close>, the largest element so far
  being \<open>mp\<close>, found at \<open>mi\<close>.
\<close>

fun argmax_loop :: "complex \<Rightarrow> nat \<Rightarrow> nat \<Rightarrow> complex list \<Rightarrow> nat" where
  "argmax_loop mp mi i [] = mi"
| "argmax_loop mp mi i (x # xs) =
     (if cgt x mp then argmax_loop x i (Suc i) xs else argmax_loop mp mi (Suc i) xs)"

definition argmax :: "complex list \<Rightarrow> error + nat" where
  "argmax xs = (case xs of [] \<Rightarrow> Inl ValueError | x # rest \<Rightarrow> Inr (argmax_loop x 0 1 rest))"

text \<open>\<^verbatim>\<open>np.max\<close> on one row.\<close>

definition amax :: "complex list \<Rightarrow> error + complex" where
  "amax xs =
     (case xs of
        [] \<Rightarrow> Inl ValueError
      | x # rest \<Rightarrow> Inr (fold (\<lambda>y m. if cgt y m then y else m) rest x))"

text \<open>
  What the scan computes: \<open>first_max ys r\<close> says that \<open>r\<close> is the first position of
  a largest element of \<open>ys\<close>, in numpy's order of complex numbers.
\<close>

definition first_max :: "complex list \<Rightarrow> nat \<Rightarrow> bool" where
  "first_max ys r \<longleftrightarrow>
     r < length ys \<and> (\<forall>k < length ys. \<not> cgt (ys ! k) (ys ! r)) \<and> (\<forall>k < r. cgt (ys ! r) (ys ! k))"

text \<open>
  Both reductions along the last axis of an array of three dimensions.  \<open>w\<close> is the
  length of that axis, which a nested list does not carry when an outer axis is empty:
  numpy raises on an axis of length zero whatever the other axes are.
\<close>

definition argmax_axis :: "nat \<Rightarrow> complex list list list \<Rightarrow> error + nat list list" where
  "argmax_axis w a = (if w = 0 then Inl ValueError else mapM_err (mapM_err argmax) a)"

definition amax_axis :: "nat \<Rightarrow> complex list list list \<Rightarrow> error + complex list list" where
  "amax_axis w a = (if w = 0 then Inl ValueError else mapM_err (mapM_err amax) a)"

text \<open>
  Lines 71 and 72: \<^verbatim>\<open>rfft[:, :, ref_bins[0]:ref_bins[1]]\<close>, then the position and
  the value of the largest element of every row of the window.
\<close>

definition peak_search ::
  "nat \<Rightarrow> int \<times> int \<Rightarrow> complex list list list \<Rightarrow> error + (nat list list \<times> complex list list)" where
  "peak_search ns bins rfft =
     (let w = slice_index (snd bins) ns - slice_index (fst bins) ns;
          window = map (map (py_slice (fst bins) (snd bins))) rfft
      in bind_err (argmax_axis w window) (\<lambda>peaks_idx.
         bind_err (amax_axis w window) (\<lambda>peaks.
         Inr (peaks_idx, peaks))))"

subsection \<open>Waveform calibration: the calibration matrices\<close>

text \<open>
  Division of complex128 values inside numpy: a zero divisor gives a NaN or an infinity
  in both components, and a warning, not an exception.  For any other divisor the result
  is the rounded quotient \<open>cdiv a b\<close> of numpy's division loop, which the model takes
  as given.
\<close>

datatype complex128 = CFinite complex | CNonFinite

definition np_cdivide ::
  "(complex \<Rightarrow> complex \<Rightarrow> complex) \<Rightarrow> complex \<Rightarrow> complex \<Rightarrow> complex128" where
  "np_cdivide cdiv a b = (if b = 0 then CNonFinite else CFinite (cdiv a b))"

fun np_real :: "complex128 \<Rightarrow> float64" where
  "np_real (CFinite z) = Finite (Re z)"
| "np_real CNonFinite = NonFinite"

fun np_imag :: "complex128 \<Rightarrow> float64" where
  "np_imag (CFinite z) = Finite (Im z)"
| "np_imag CNonFinite = NonFinite"

text \<open>Lines 75 to 78: \<^verbatim>\<open>peaks[0, 0] / peaks\<close>, stored as (real, imaginary).\<close>

definition phase_calibration ::
  "(complex \<Rightarrow> complex \<Rightarrow> complex) \<Rightarrow> complex list list \<Rightarrow> error + float64 list list list" where
  "phase_calibration cdiv peaks =
     bind_err (item00 peaks) (\<lambda>peak0.
     Inr (map (map (\<lambda>p. [np_real (np_cdivide cdiv peak0 p),
                           np_imag (np_cdivide cdiv peak0 p)])) peaks))"

text \<open>Division and product of float64 values inside numpy.\<close>

definition np_divide :: "real \<Rightarrow> real \<Rightarrow> float64" where
  "np_divide a b = (if b = 0 then NonFinite else Finite (a / b))"

fun np_multiply :: "float64 \<Rightarrow> float64 \<Rightarrow> float64" where
  "np_multiply (Finite a) (Finite b) = Finite (a * b)"
| "np_multiply a b = NonFinite"

text \<open>
  Lines 81 and 82:
  \<^verbatim>\<open>2 * np.pi * ((peaks_idx - peaks_idx[0, 0]) / ref) * (fsample / fslope)\<close>.
\<close>

definition frequency_calibration ::
  "int list list \<Rightarrow> real \<Rightarrow> real \<Rightarrow> real \<Rightarrow> error + float64 list list" where
  "frequency_calibration peaks_idx ref fs sl =
     bind_err (item00 peaks_idx) (\<lambda>idx0.
     bind_err (py_truediv fs sl) (\<lambda>ratio.
     Inr (map (map (\<lambda>i. np_multiply
                           (np_multiply (Finite (2 * pi)) (np_divide (real_of_int (i - idx0)) ref))
                           (Finite ratio)))
              peaks_idx)))"

text \<open>Lines 71 to 84, on the range profile: the result is (freq_calib, phase_calib).\<close>

definition waveform_calibrator ::
  "(complex \<Rightarrow> complex \<Rightarrow> complex) \<Rightarrow> config \<Rightarrow> real \<Rightarrow> int \<times> int
     \<Rightarrow> complex list list list
     \<Rightarrow> error + (float64 list list \<times> float64 list list list)" where
  "waveform_calibrator cdiv cfg ref bins rfft =
     bind_err (peak_search (numAdcSamples cfg) bins rfft) (\<lambda>(peaks_idx, peaks).
     bind_err (phase_calibration cdiv peaks) (\<lambda>phase_calib.
     bind_err (frequency_calibration (map (map int) peaks_idx) ref (fsample cfg) (fslope cfg))
       (\<lambda>freq_calib. Inr (freq_calib, phase_calib))))"

definition waveform_calibration ::
  "(complex \<Rightarrow> complex \<Rightarrow> complex) \<Rightarrow> 8 word list \<Rightarrow> config \<Rightarrow> real
     \<Rightarrow> error + (float64 list list \<times> float64 list list list)" where
  "waveform_calibration cdiv buf cfg ref =
     bind_err (ref_bins cfg ref) (\<lambda>bins.
     bind_err (load_frame buf (cfg_ntx cfg) (cfg_nrx cfg) (numChirpLoops cfg) (numAdcSamples cfg))
       (\<lambda>frame.
     waveform_calibrator cdiv cfg ref bins
       (range_profile (numAdcSamples cfg) (to_complex frame))))"

subsection \<open>A sample configuration\<close>

text \<open>
  One antenna pair, one chirp of 256 samples, a slope of 50 MHz/us and 10 Msps: a maximal
  range of about 29.98 m and a resolution of about 0.117 m.
\<close>

definition sample_cfg :: config where
  "sample_cfg = \<lparr>cfg_ntx = 1, cfg_nrx = 1, numChirpLoops = 1, numAdcSamples = 256,
                  frequencySlope_Mhz_us = 50, adcSamplingFrequency_ksps = 10000\<rparr>"

text \<open>
  Two small configurations with one transmitter and two receivers, of one and of three
  samples per chirp.
\<close>

definition two_rx_cfg :: config where
  "two_rx_cfg = \<lparr>cfg_ntx = 1, cfg_nrx = 2, numChirpLoops = 1, numAdcSamples = 1,
                  frequencySlope_Mhz_us = 50, adcSamplingFrequency_ksps = 10000\<rparr>"

definition three_bin_cfg :: config where
  "three_bin_cfg = \<lparr>cfg_ntx = 1, cfg_nrx = 2, numChirpLoops = 1, numAdcSamples = 3,
                     frequencySlope_Mhz_us = 50, adcSamplingFrequency_ksps = 10000\<rparr>"

text \<open>
  A configuration of very short range: 50 MHz/us and 500 ksps give a maximal range of
  about 1.5 m, cut into 8 bins.
\<close>

text \<open>
  One transmitter, two receivers, one chirp of two samples, and a maximal range of about
  2 m (50 MHz/us, 667 ksps): two bins of about 1 m.
\<close>

definition two_bin_cfg :: config where
  "two_bin_cfg = \<lparr>cfg_ntx = 1, cfg_nrx = 2, numChirpLoops = 1, numAdcSamples = 2,
                   frequencySlope_Mhz_us = 50, adcSamplingFrequency_ksps = 667\<rparr>"

definition short_range_cfg :: config where
  "short_range_cfg = \<lparr>cfg_ntx = 1, cfg_nrx = 1, numChirpLoops = 1, numAdcSamples = 8,
                       frequencySlope_Mhz_us = 50, adcSamplingFrequency_ksps = 500\<rparr>"

section \<open>Properties\<close>

subsection \<open>Auxiliary facts: errors, the scan for the maximum, slices\<close>

lemma bind_err_Inr [simp]: "bind_err (Inr x) f = f x"
  by (simp add: bind_err_def)

lemma bind_err_Inl [simp]: "bind_err (Inl e) f = Inl e"
  by (simp add: bind_err_def)

lemma bind_err_eq_Inr:
  "bind_err m f = Inr y \<longleftrightarrow> (\<exists>x. m = Inr x \<and> f x = Inr y)"
  by (cases m) simp_all

lemma mapM_err_eq_Inr:
  "mapM_err f xs = Inr ys \<longleftrightarrow> list_all2 (\<lambda>x y. f x = Inr y) xs ys"
proof (induction xs arbitrary: ys)
  case Nil
  then show ?case by auto
next
  case (Cons x xs)
  then show ?case
    by (cases ys) (auto simp: bind_err_eq_Inr)
qed

lemma cgt_irrefl: "\<not> cgt a a"
  by (simp add: cgt_def)

lemma cgt_trans: "cgt a b \<Longrightarrow> cgt b c \<Longrightarrow> cgt a c"
  by (auto simp: cgt_def)

lemma cgt_not_trans: "cgt a b \<Longrightarrow> \<not> cgt c b \<Longrightarrow> cgt a c"
  by (auto simp: cgt_def)

lemma first_max_snoc_gt:
  assumes "first_max ps mi" "cgt x (ps ! mi)"
  shows "first_max (ps @ [x]) (length ps)"
  using assms
  unfolding first_max_def
  by (auto simp: nth_append cgt_irrefl less_Suc_eq intro: cgt_not_trans dest: cgt_trans)

lemma first_max_snoc_le:
  assumes "first_max ps mi" "\<not> cgt x (ps ! mi)"
  shows "first_max (ps @ [x]) mi"
  using assms
  unfolding first_max_def
  by (auto simp: nth_append less_Suc_eq)

lemma argmax_loop_first_max:
  "first_max ps mi \<Longrightarrow> first_max (ps @ xs) (argmax_loop (ps ! mi) mi (length ps) xs)"
proof (induction xs arbitrary: ps mi)
  case Nil
  then show ?case by simp
next
  case (Cons x xs)
  show ?case
  proof (cases "cgt x (ps ! mi)")
    case True
    from first_max_snoc_gt [OF Cons.prems True]
    have "first_max ((ps @ [x]) @ xs) (argmax_loop ((ps @ [x]) ! length ps) (length ps) (length (ps @ [x])) xs)"
      by (rule Cons.IH)
    with True show ?thesis by simp
  next
    case False
    from first_max_snoc_le [OF Cons.prems False]
    have "first_max ((ps @ [x]) @ xs) (argmax_loop ((ps @ [x]) ! mi) mi (length (ps @ [x])) xs)"
      by (rule Cons.IH)
    moreover have "mi < length ps"
      using Cons.prems by (simp add: first_max_def)
    ultimately show ?thesis
      using False by (simp add: nth_append)
  qed
qed

lemma fold_max_argmax_loop:
  "mi < length ps \<Longrightarrow>
   fold (\<lambda>y m. if cgt y m then y else m) xs (ps ! mi)
     = (ps @ xs) ! argmax_loop (ps ! mi) mi (length ps) xs"
proof (induction xs arbitrary: ps mi)
  case Nil
  then show ?case by (simp add: nth_append)
next
  case (Cons x xs)
  show ?case
  proof (cases "cgt x (ps ! mi)")
    case True
    have "fold (\<lambda>y m. if cgt y m then y else m) xs ((ps @ [x]) ! length ps)
        = ((ps @ [x]) @ xs) ! argmax_loop ((ps @ [x]) ! length ps) (length ps) (length (ps @ [x])) xs"
      by (rule Cons.IH) simp
    with True show ?thesis by simp
  next
    case False
    have "fold (\<lambda>y m. if cgt y m then y else m) xs ((ps @ [x]) ! mi)
        = ((ps @ [x]) @ xs) ! argmax_loop ((ps @ [x]) ! mi) mi (length (ps @ [x])) xs"
      by (rule Cons.IH) (use Cons.prems in simp)
    with False Cons.prems show ?thesis by (simp add: nth_append)
  qed
qed

lemma argmax_first_max:
  assumes "xs \<noteq> []"
  shows "\<exists>i. argmax xs = Inr i \<and> amax xs = Inr (xs ! i) \<and> first_max xs i"
proof -
  from assms obtain x rest where xs: "xs = x # rest"
    by (cases xs) auto
  have fm: "first_max [x] 0"
    by (simp add: first_max_def cgt_irrefl)
  from argmax_loop_first_max [OF fm, of rest]
  have 1: "first_max xs (argmax_loop x 0 1 rest)"
    by (simp add: xs)
  from fold_max_argmax_loop [of 0 "[x]" rest]
  have 2: "fold (\<lambda>y m. if cgt y m then y else m) rest x = xs ! argmax_loop x 0 1 rest"
    by (simp add: xs)
  show ?thesis
    using 1 2 by (simp add: argmax_def amax_def xs)
qed


lemma mapM_err_total:
  "(\<And>x. x \<in> set xs \<Longrightarrow> \<exists>y. f x = Inr y) \<Longrightarrow> \<exists>ys. mapM_err f xs = Inr ys"
proof (induction xs)
  case Nil
  then show ?case by simp
next
  case (Cons x xs)
  then obtain y ys where "f x = Inr y" "mapM_err f xs = Inr ys"
    by (metis list.set_intros(1) list.set_intros(2))
  then show ?case by simp
qed

lemma slice_index_le: "slice_index i n \<le> n"
  by (auto simp: slice_index_def)

lemma length_py_slice:
  "length (py_slice lo hi xs) = slice_index hi (length xs) - slice_index lo (length xs)"
  using slice_index_le [of hi "length xs"]
  by (simp add: py_slice_def Let_def)

lemma nth_py_slice:
  assumes "k < slice_index hi (length xs) - slice_index lo (length xs)"
  shows "py_slice lo hi xs ! k = xs ! (slice_index lo (length xs) + k)"
  using assms slice_index_le [of hi "length xs"]
  by (simp add: py_slice_def Let_def)

lemma argmax_py_slice:
  assumes "length row = ns" and "slice_index lo ns < slice_index hi ns"
  shows "\<exists>i. argmax (py_slice lo hi row) = Inr i
     \<and> amax (py_slice lo hi row) = Inr (row ! (slice_index lo ns + i))
     \<and> i < slice_index hi ns - slice_index lo ns
     \<and> (\<forall>k\<in>{slice_index lo ns..<slice_index hi ns}. \<not> cgt (row ! k) (row ! (slice_index lo ns + i)))
     \<and> (\<forall>k\<in>{slice_index lo ns..<slice_index lo ns + i}. cgt (row ! (slice_index lo ns + i)) (row ! k))"
proof -
  let ?w = "py_slice lo hi row"
  let ?a = "slice_index lo ns"
  let ?b = "slice_index hi ns"
  have len: "length ?w = ?b - ?a"
    using assms(1) by (simp add: length_py_slice)
  have nth: "?w ! k = row ! (?a + k)" if "k < ?b - ?a" for k
    using that assms(1) nth_py_slice [of k hi row lo] by simp
  from len assms(2) have "?w \<noteq> []"
    by auto
  then obtain i where i: "argmax ?w = Inr i" "amax ?w = Inr (?w ! i)" "first_max ?w i"
    using argmax_first_max by blast
  from i(3) have ilt: "i < ?b - ?a"
    by (simp add: first_max_def len)
  have upper: "\<not> cgt (row ! k) (row ! (?a + i))" if "k \<in> {?a..<?b}" for k
  proof -
    from that have "k - ?a < ?b - ?a" and k: "?a + (k - ?a) = k"
      by auto
    with i(3) have "\<not> cgt (?w ! (k - ?a)) (?w ! i)"
      by (simp add: first_max_def len)
    then show ?thesis
      using nth [of "k - ?a"] nth [OF ilt] \<open>k - ?a < ?b - ?a\<close> k by simp
  qed
  have strict: "cgt (row ! (?a + i)) (row ! k)" if "k \<in> {?a..<?a + i}" for k
  proof -
    from that have lt: "k - ?a < i" and k: "?a + (k - ?a) = k"
      by auto
    with i(3) have "cgt (?w ! i) (?w ! (k - ?a))"
      by (simp add: first_max_def)
    moreover from lt ilt have "k - ?a < ?b - ?a" by simp
    ultimately show ?thesis
      using nth [of "k - ?a"] nth [OF ilt] k by simp
  qed
  show ?thesis
    using i(1) i(2) ilt upper strict nth [OF ilt] by auto
qed

lemma peak_search_ok:
  assumes "\<forall>r\<in>set rfft. \<forall>x\<in>set r. length x = ns"
    and "slice_index lo ns < slice_index hi ns"
  shows "\<exists>idx peaks. peak_search ns (lo, hi) rfft = Inr (idx, peaks)"
proof -
  have row: "\<exists>i. argmax (py_slice lo hi x) = Inr i" "\<exists>p. amax (py_slice lo hi x) = Inr p"
    if "r \<in> set rfft" "x \<in> set r" for r x
    using argmax_py_slice [of x ns lo hi] assms that by auto
  have a: "\<exists>ys. mapM_err argmax (map (py_slice lo hi) r) = Inr ys" if "r \<in> set rfft" for r
    by (rule mapM_err_total) (use row that in auto)
  have 1: "\<exists>idx. mapM_err (mapM_err argmax) (map (map (py_slice lo hi)) rfft) = Inr idx"
  proof (rule mapM_err_total)
    fix x assume "x \<in> set (map (map (py_slice lo hi)) rfft)"
    then obtain r where "r \<in> set rfft" "x = map (py_slice lo hi) r" by auto
    then show "\<exists>y. mapM_err argmax x = Inr y" using a by simp
  qed
  have b: "\<exists>ys. mapM_err amax (map (py_slice lo hi) r) = Inr ys" if "r \<in> set rfft" for r
    by (rule mapM_err_total) (use row that in auto)
  have 2: "\<exists>peaks. mapM_err (mapM_err amax) (map (map (py_slice lo hi)) rfft) = Inr peaks"
  proof (rule mapM_err_total)
    fix x assume "x \<in> set (map (map (py_slice lo hi)) rfft)"
    then obtain r where "r \<in> set rfft" "x = map (py_slice lo hi) r" by auto
    then show "\<exists>y. mapM_err amax x = Inr y" using b by simp
  qed
  from 1 2 assms(2) show ?thesis
    by (auto simp: peak_search_def argmax_axis_def amax_axis_def Let_def)
qed

lemma mapM_err_nested_nth:
  assumes "mapM_err (mapM_err f) (map (map g) a) = Inr b"
  shows "length b = length a \<and>
    (\<forall>i<length a. length (b ! i) = length (a ! i)
       \<and> (\<forall>j<length (a ! i). f (g (a ! i ! j)) = Inr (b ! i ! j)))"
proof -
  from assms have outer: "list_all2 (\<lambda>r ys. mapM_err f r = Inr ys) (map (map g) a) b"
    by (simp add: mapM_err_eq_Inr)
  then have len: "length b = length a"
    by (auto dest: list_all2_lengthD)
  have "length (b ! i) = length (a ! i) \<and> (\<forall>j<length (a ! i). f (g (a ! i ! j)) = Inr (b ! i ! j))"
    if "i < length a" for i
  proof -
    from outer that have "mapM_err f (map g (a ! i)) = Inr (b ! i)"
      by (auto dest: list_all2_nthD)
    then have inner: "list_all2 (\<lambda>x y. f x = Inr y) (map g (a ! i)) (b ! i)"
      by (simp add: mapM_err_eq_Inr)
    then have "length (b ! i) = length (a ! i)"
      by (auto dest: list_all2_lengthD)
    moreover have "f (g (a ! i ! j)) = Inr (b ! i ! j)" if "j < length (a ! i)" for j
      using list_all2_nthD [OF inner, of j] that by simp
    ultimately show ?thesis by simp
  qed
  with len show ?thesis by simp
qed

lemma peak_search_entry:
  assumes "peak_search ns (lo, hi) rfft = Inr (idx, peaks)"
    and "tx < length rfft" and "rx < length (rfft ! tx)"
  shows "argmax (py_slice lo hi (rfft ! tx ! rx)) = Inr (idx ! tx ! rx)"
    and "amax (py_slice lo hi (rfft ! tx ! rx)) = Inr (peaks ! tx ! rx)"
proof -
  from assms(1) have
    a: "mapM_err (mapM_err argmax) (map (map (py_slice lo hi)) rfft) = Inr idx" and
    b: "mapM_err (mapM_err amax) (map (map (py_slice lo hi)) rfft) = Inr peaks"
    by (auto simp: peak_search_def argmax_axis_def amax_axis_def Let_def bind_err_eq_Inr
        split: if_splits)
  show "argmax (py_slice lo hi (rfft ! tx ! rx)) = Inr (idx ! tx ! rx)"
    using mapM_err_nested_nth [OF a] assms(2,3) by simp
  show "amax (py_slice lo hi (rfft ! tx ! rx)) = Inr (peaks ! tx ! rx)"
    using mapM_err_nested_nth [OF b] assms(2,3) by simp
qed

lemma peak_search_shape:
  assumes "peak_search ns (lo, hi) rfft = Inr (idx, peaks)"
  shows "length idx = length rfft" and "length peaks = length rfft"
    and "tx < length rfft \<Longrightarrow> length (idx ! tx) = length (rfft ! tx)"
    and "tx < length rfft \<Longrightarrow> length (peaks ! tx) = length (rfft ! tx)"
    and "slice_index lo ns < slice_index hi ns"
proof -
  from assms(1) have
    a: "mapM_err (mapM_err argmax) (map (map (py_slice lo hi)) rfft) = Inr idx" and
    b: "mapM_err (mapM_err amax) (map (map (py_slice lo hi)) rfft) = Inr peaks" and
    c: "slice_index lo ns < slice_index hi ns"
    by (auto simp: peak_search_def argmax_axis_def amax_axis_def Let_def bind_err_eq_Inr
        split: if_splits)
  show "length idx = length rfft" "length peaks = length rfft"
    using mapM_err_nested_nth [OF a] mapM_err_nested_nth [OF b] by simp_all
  show "tx < length rfft \<Longrightarrow> length (idx ! tx) = length (rfft ! tx)"
    using mapM_err_nested_nth [OF a] by simp
  show "tx < length rfft \<Longrightarrow> length (peaks ! tx) = length (rfft ! tx)"
    using mapM_err_nested_nth [OF b] by simp
  show "slice_index lo ns < slice_index hi ns" by (rule c)
qed

subsection \<open>Frame loading\<close>

lemma length_fromfile_int16: "length (fromfile_int16 bs) = length bs div 2"
  by (induction bs rule: fromfile_int16.induct) simp_all

lemma load_frame_cases:
  "load_frame buf n_tx n_rx nc ns =
     (if length buf div 2 = n_tx * n_rx * nc * ns * 2
      then Inr (map (\<lambda>a. map (\<lambda>b. map (\<lambda>c. split_rows ns 2 c)
                                   (split_rows nc (ns * 2) b))
                         (split_rows n_rx (nc * ns * 2) a))
                (split_rows n_tx (n_rx * nc * ns * 2) (fromfile_int16 buf)))
      else Inl ValueError)"
  by (simp add: load_frame_def reshape5_def length_fromfile_int16)

text \<open>
  Claim C4, as stated: loading succeeds if and only if the buffer holds exactly
  \<open>ntx * nrx * nchirp * nsample * 2 * 2\<close> bytes.  It fails on a buffer of five bytes
  for a frame of one antenna pair, one chirp and one sample (four bytes expected): the
  fifth byte is never read and the frame is produced.
\<close>

theorem C4_exact_length_counterexample:
  "load_frame [1, 0, 2, 0, 7] 1 1 1 1 = Inr [[[[[1, 2]]]]]
   \<and> length [1, 0, 2, 0, 7 :: 8 word] \<noteq> 1 * 1 * 1 * 1 * 2 * 2"
  by (simp add: load_frame_def reshape5_def split_rows_def word_cat_eq)

text \<open>
  Claim C4, amended: loading succeeds if and only if the number of whole two-byte items
  of the buffer, \<open>length buf div 2\<close>, is \<open>ntx * nrx * nchirp * nsample * 2\<close>; so a
  buffer of exactly \<open>ntx * nrx * nchirp * nsample * 2 * 2\<close> bytes loads, and so does
  one with a single byte more.  Every other length raises the error of
  \<^verbatim>\<open>reshape\<close> (a \<open>ValueError\<close>) and no frame is produced.
\<close>

theorem C4_load_frame_iff_item_count:
  "((\<exists>frame. load_frame buf n_tx n_rx nc ns = Inr frame)
      \<longleftrightarrow> length buf div 2 = n_tx * n_rx * nc * ns * 2)
   \<and> (length buf = n_tx * n_rx * nc * ns * 2 * 2
        \<longrightarrow> (\<exists>frame. load_frame buf n_tx n_rx nc ns = Inr frame))
   \<and> (length buf div 2 \<noteq> n_tx * n_rx * nc * ns * 2
        \<longrightarrow> load_frame buf n_tx n_rx nc ns = Inl ValueError)"
  by (simp add: load_frame_cases)

theorem C4_load_frame_witness:
  "length [1, 0, 2, 0 :: 8 word] = 1 * 1 * 1 * 1 * 2 * 2
   \<and> (\<exists>frame. load_frame [1, 0, 2, 0] 1 1 1 1 = Inr frame)
   \<and> length [1, 0, 2 :: 8 word] div 2 \<noteq> 1 * 1 * 1 * 1 * 2
   \<and> load_frame [1, 0, 2] 1 1 1 1 = Inl ValueError"
  using C4_load_frame_iff_item_count [of "[1, 0, 2, 0]" 1 1 1 1]
    C4_load_frame_iff_item_count [of "[1, 0, 2]" 1 1 1 1]
  by simp

subsection \<open>The reference window\<close>

text \<open>
  Claim C5, as stated: both bounds are floors.  For the sample configuration and a target
  at 0.5 m the quotient \<open>(ref - 1) / resolution\<close> is about -4.27: the code's low bound
  is -4, the floor is -5.
\<close>

theorem C5_floor_counterexample:
  "ref_bins sample_cfg (1 / 2) = Inr (- 4, 12)
   \<and> \<lfloor>((1 / 2 :: real) - 1)
        / ((10000 * 10 ^ 3 * 299792458 / (2 * (50 * 10 ^ 12))) / 256)\<rfloor> = - 5"
  by (simp add: sample_cfg_def ref_bins_def bind_err_def py_truediv_def fsample_def
      fslope_def C_def py_int_def)

text \<open>
  Claim C5, amended: for a positive slope, sampling frequency and number of samples, and
  every reference distance, the bounds are the quotients \<open>(ref - 1) / resolution\<close> and
  \<open>(ref + 1) / resolution\<close> rounded towards zero, with
  \<open>resolution = (sampling_frequency * c / (2 * frequency_slope)) / nsample\<close> and
  \<open>c = 299792458\<close>: the low bound is the floor when \<open>1 \<le> ref\<close> and the ceiling
  otherwise, the high bound is the floor when \<open>-1 \<le> ref\<close> and the ceiling otherwise.
\<close>

theorem C5_ref_bins_truncate:
  assumes "0 < frequencySlope_Mhz_us cfg" and "0 < adcSamplingFrequency_ksps cfg"
    and "0 < numAdcSamples cfg"
  shows "ref_bins cfg ref =
     Inr (if 1 \<le> ref
          then \<lfloor>(ref - 1) / ((adcSamplingFrequency_ksps cfg * 10 ^ 3 * 299792458
                      / (2 * (frequencySlope_Mhz_us cfg * 10 ^ 12))) / real (numAdcSamples cfg))\<rfloor>
          else \<lceil>(ref - 1) / ((adcSamplingFrequency_ksps cfg * 10 ^ 3 * 299792458
                      / (2 * (frequencySlope_Mhz_us cfg * 10 ^ 12))) / real (numAdcSamples cfg))\<rceil>,
          if - 1 \<le> ref
          then \<lfloor>(ref + 1) / ((adcSamplingFrequency_ksps cfg * 10 ^ 3 * 299792458
                      / (2 * (frequencySlope_Mhz_us cfg * 10 ^ 12))) / real (numAdcSamples cfg))\<rfloor>
          else \<lceil>(ref + 1) / ((adcSamplingFrequency_ksps cfg * 10 ^ 3 * 299792458
                      / (2 * (frequencySlope_Mhz_us cfg * 10 ^ 12))) / real (numAdcSamples cfg))\<rceil>)"
proof -
  define res where "res = (adcSamplingFrequency_ksps cfg * 10 ^ 3 * 299792458
                      / (2 * (frequencySlope_Mhz_us cfg * 10 ^ 12))) / real (numAdcSamples cfg)"
  have pos: "0 < res"
    using assms by (simp add: res_def)
  have lo: "py_int ((ref - 1) / res)
      = (if 1 \<le> ref then \<lfloor>(ref - 1) / res\<rfloor> else \<lceil>(ref - 1) / res\<rceil>)"
    using pos by (simp add: py_int_def zero_le_divide_iff)
  have hi: "py_int ((ref + 1) / res)
      = (if - 1 \<le> ref then \<lfloor>(ref + 1) / res\<rfloor> else \<lceil>(ref + 1) / res\<rceil>)"
    using pos by (auto simp add: py_int_def zero_le_divide_iff)
  have "ref_bins cfg ref = Inr (py_int ((ref - 1) / res), py_int ((ref + 1) / res))"
    using assms pos
    by (simp add: ref_bins_def bind_err_def py_truediv_def fsample_def fslope_def C_def res_def)
  then have "ref_bins cfg ref =
      Inr (if 1 \<le> ref then \<lfloor>(ref - 1) / res\<rfloor> else \<lceil>(ref - 1) / res\<rceil>,
           if - 1 \<le> ref then \<lfloor>(ref + 1) / res\<rfloor> else \<lceil>(ref + 1) / res\<rceil>)"
    by (simp only: lo hi)
  then show ?thesis
    unfolding res_def .
qed

theorem C5_ref_bins_witness:
  "0 < frequencySlope_Mhz_us sample_cfg \<and> 0 < adcSamplingFrequency_ksps sample_cfg
   \<and> 0 < numAdcSamples sample_cfg
   \<and> ref_bins sample_cfg 5 = Inr (34, 51)
   \<and> ref_bins sample_cfg (1 / 2) = Inr (- 4, 12)"
  using C5_ref_bins_truncate [of sample_cfg 5] C5_ref_bins_truncate [of sample_cfg "1 / 2"]
  by (simp add: sample_cfg_def)

subsection \<open>The peak search\<close>

text \<open>
  What lines 71 and 72 return on a window \<open>[lo, hi)\<close> inside the sample axis: the
  index is relative to the window, the peak is the bin at \<open>lo + idx\<close>, and that bin is
  the first of the largest bins of the window in numpy's order of complex numbers.  The
  search compares the complex values themselves; no magnitude is taken.
\<close>

lemma peak_search_first_largest:
  assumes "\<forall>r\<in>set rfft. \<forall>x\<in>set r. length x = ns"
    and "lo < hi" and "hi \<le> ns"
    and "tx < length rfft" and "rx < length (rfft ! tx)"
  shows "\<exists>idx peaks. peak_search ns (int lo, int hi) rfft = Inr (idx, peaks)
     \<and> idx ! tx ! rx < hi - lo
     \<and> peaks ! tx ! rx = rfft ! tx ! rx ! (lo + idx ! tx ! rx)
     \<and> (\<forall>k\<in>{lo..<hi}. \<not> cgt (rfft ! tx ! rx ! k) (peaks ! tx ! rx))
     \<and> (\<forall>k\<in>{lo..<lo + idx ! tx ! rx}. cgt (peaks ! tx ! rx) (rfft ! tx ! rx ! k))"
proof -
  have a: "slice_index (int lo) ns = lo" and b: "slice_index (int hi) ns = hi"
    using assms(2,3) by (simp_all add: slice_index_def)
  have nonempty: "slice_index (int lo) ns < slice_index (int hi) ns"
    using assms(2) by (simp add: a b)
  from peak_search_ok [OF assms(1) nonempty]
  obtain idx peaks where ps: "peak_search ns (int lo, int hi) rfft = Inr (idx, peaks)"
    by blast
  have len: "length (rfft ! tx ! rx) = ns"
    using assms(1,4,5) by (meson nth_mem)
  from argmax_py_slice [OF len nonempty] peak_search_entry [OF ps assms(4,5)]
  have "idx ! tx ! rx < hi - lo
     \<and> peaks ! tx ! rx = rfft ! tx ! rx ! (lo + idx ! tx ! rx)
     \<and> (\<forall>k\<in>{lo..<hi}. \<not> cgt (rfft ! tx ! rx ! k) (peaks ! tx ! rx))
     \<and> (\<forall>k\<in>{lo..<lo + idx ! tx ! rx}. cgt (peaks ! tx ! rx) (rfft ! tx ! rx ! k))"
    by (auto simp: a b)
  with ps show ?thesis by blast
qed

subsection \<open>Auxiliary facts: the calibration matrices\<close>

lemma item00_eq_Inr:
  "item00 a = Inr x \<longleftrightarrow> a \<noteq> [] \<and> a ! 0 \<noteq> [] \<and> x = a ! 0 ! 0"
  by (auto simp: item00_def split: list.splits)

lemma item00_map: "item00 (map (map f) a) = (case item00 a of Inl e \<Rightarrow> Inl e | Inr x \<Rightarrow> Inr (f x))"
  by (auto simp: item00_def split: list.splits)

lemma phase_calibration_entry:
  assumes "phase_calibration cdiv peaks = Inr phase" and "tx < length peaks" and "rx < length (peaks ! tx)"
  shows "phase ! tx ! rx =
     (if peaks ! tx ! rx = 0 then [NonFinite, NonFinite]
      else [Finite (Re (cdiv (peaks ! 0 ! 0) (peaks ! tx ! rx))),
            Finite (Im (cdiv (peaks ! 0 ! 0) (peaks ! tx ! rx)))])"
  using assms
  by (auto simp: phase_calibration_def bind_err_eq_Inr item00_eq_Inr np_cdivide_def)

lemma frequency_calibration_entry:
  assumes "frequency_calibration idxs ref fs sl = Inr freq" and "tx < length idxs" and "rx < length (idxs ! tx)"
  shows "freq ! tx ! rx =
     (if ref = 0 then NonFinite
      else Finite (2 * pi * (real_of_int (idxs ! tx ! rx - idxs ! 0 ! 0) / ref) * (fs / sl)))"
  using assms
  by (auto simp: frequency_calibration_def bind_err_eq_Inr item00_eq_Inr np_divide_def
      py_truediv_def split: if_splits)

lemma frequency_calibration_shift:
  "frequency_calibration (map (map (\<lambda>i. i + k)) idxs) ref fs sl
     = frequency_calibration idxs ref fs sl"
  by (cases "item00 idxs") (simp_all add: frequency_calibration_def item00_map o_def)

lemma waveform_calibrator_eq_Inr:
  "waveform_calibrator cdiv cfg ref bins rfft = Inr (freq, phase) \<longleftrightarrow>
    (\<exists>idx peaks. peak_search (numAdcSamples cfg) bins rfft = Inr (idx, peaks)
       \<and> phase_calibration cdiv peaks = Inr phase
       \<and> frequency_calibration (map (map int) idx) ref (fsample cfg) (fslope cfg) = Inr freq)"
  by (auto simp: waveform_calibrator_def bind_err_eq_Inr)

lemma waveform_calibrator_ok:
  assumes "peak_search (numAdcSamples cfg) bins rfft = Inr (idx, peaks)"
    and "rfft \<noteq> []" and "rfft ! 0 \<noteq> []" and "frequencySlope_Mhz_us cfg \<noteq> 0"
  shows "\<exists>freq phase. waveform_calibrator cdiv cfg ref bins rfft = Inr (freq, phase)"
proof -
  obtain lo hi where bins: "bins = (lo, hi)" by (cases bins)
  note sh = peak_search_shape [OF assms(1) [unfolded bins]]
  have p: "peaks \<noteq> []" "peaks ! 0 \<noteq> []" and i: "idx \<noteq> []" "idx ! 0 \<noteq> []"
    using sh(1,2) sh(3) [of 0] sh(4) [of 0] assms(2,3) by auto
  have "item00 peaks = Inr (peaks ! 0 ! 0)"
    using p by (simp add: item00_eq_Inr)
  moreover have "item00 (map (map int) idx) = Inr (int (idx ! 0 ! 0))"
    using i by (auto simp add: item00_def split: list.splits)
  ultimately show ?thesis
    using assms(1,4)
    by (simp add: waveform_calibrator_def phase_calibration_def frequency_calibration_def
        py_truediv_def fslope_def)
qed

lemmas eval_defs = peak_search_def argmax_axis_def amax_axis_def slice_index_def py_slice_def
  argmax_def amax_def cgt_def waveform_calibrator_def phase_calibration_def
  frequency_calibration_def item00_def np_cdivide_def np_divide_def py_truediv_def
  fsample_def fslope_def

text \<open>
  A run on a file of eight bytes: the pair (0, 0) holds the sample 1 + 0j, the pair (0, 1)
  the sample 0, and the target is at 29 m, so that the window is \<open>[0, 1)\<close>.
\<close>

lemma two_rx_bins: "ref_bins two_rx_cfg 29 = Inr (0, 1)"
  by (simp add: two_rx_cfg_def ref_bins_def py_truediv_def fsample_def fslope_def C_def
      py_int_def)

lemma two_rx_profile:
  "load_frame [1, 0, 0, 0, 0, 0, 0, 0] 1 2 1 1 = Inr [[[[[1, 0]]], [[[0, 0]]]]]"
  "range_profile 1 (to_complex [[[[[1, 0]]], [[[0, 0]]]]]) = [[[1], [0]]]"
  by (simp_all add: load_frame_def reshape5_def split_rows_def word_cat_eq upt_conv_Cons
      range_profile_def to_complex_def fft_def sum_rows_def complex_eq_iff)

lemma two_rx_peaks:
  "peak_search (numAdcSamples two_rx_cfg) (0, 1) [[[1], [0]]] = Inr ([[0, 0]], [[1, 0]])"
  by (simp add: two_rx_cfg_def eval_defs)

lemma two_rx_stage:
  "waveform_calibrator cdiv two_rx_cfg 29 (0, 1) [[[1], [0]]]
     = Inr ([[Finite 0, Finite 0]],
            [[[Finite (Re (cdiv 1 1)), Finite (Im (cdiv 1 1))], [NonFinite, NonFinite]]])"
  by (simp add: two_rx_cfg_def eval_defs)

lemma two_rx_run:
  "waveform_calibration cdiv [1, 0, 0, 0, 0, 0, 0, 0] two_rx_cfg 29
     = Inr ([[Finite 0, Finite 0]],
            [[[Finite (Re (cdiv 1 1)), Finite (Im (cdiv 1 1))], [NonFinite, NonFinite]]])"
proof -
  have "waveform_calibration cdiv [1, 0, 0, 0, 0, 0, 0, 0] two_rx_cfg 29
     = waveform_calibrator cdiv two_rx_cfg 29 (0, 1) [[[1], [0]]]"
    using two_rx_bins two_rx_profile
    by (simp add: waveform_calibration_def two_rx_cfg_def)
  then show ?thesis by (simp add: two_rx_stage)
qed

text \<open>
  A range profile of three bins for two pairs, searched in the window \<open>[1, 3)\<close>: the
  peaks are at the bins 2 and 1, that is at the positions 1 and 0 of the window.
\<close>

lemma three_bin_peaks:
  "peak_search (numAdcSamples three_bin_cfg) (1, 3) [[[0, 1, 5], [0, 7, 2]]]
     = Inr ([[1, 0]], [[5, 7]])"
  by (simp add: three_bin_cfg_def eval_defs)

lemma three_bin_stage:
  "waveform_calibrator cdiv three_bin_cfg 5 (1, 3) [[[0, 1, 5], [0, 7, 2]]]
     = Inr ([[Finite 0, Finite (2 * pi * (- 1 / 5) * (10000 * 10 ^ 3 / (50 * 10 ^ 12)))]],
            [[[Finite (Re (cdiv 5 5)), Finite (Im (cdiv 5 5))],
              [Finite (Re (cdiv 5 7)), Finite (Im (cdiv 5 7))]]])"
  by (simp add: three_bin_cfg_def eval_defs)

subsection \<open>The peak of the target\<close>

text \<open>
  A run on a file of 16 bytes: one transmitter, two receivers, one chirp of two samples.
  The first receiver holds the samples -8 and 12, the second 12 and -8, so that the range
  profiles are \<open>[4, -20]\<close> and \<open>[4, 20]\<close>: the target is in bin 1 for both receivers,
  with opposite phases.  The target is at 1.5 m and the window is \<open>[0, 2)\<close>.
\<close>

lemma cis_minus_pi: "cis (- pi) = - 1"
  by (simp add: complex_eq_iff)

lemma two_bin_bins: "ref_bins two_bin_cfg (3 / 2) = Inr (0, 2)"
  by (simp add: two_bin_cfg_def ref_bins_def py_truediv_def fsample_def fslope_def C_def
      py_int_def)

lemma two_bin_frame:
  "load_frame [248, 255, 0, 0, 12, 0, 0, 0, 12, 0, 0, 0, 248, 255, 0, 0] 1 2 1 2
     = Inr [[[[[- 8, 0], [12, 0]]], [[[12, 0], [- 8, 0]]]]]"
  by (simp add: load_frame_def reshape5_def split_rows_def word_cat_eq upt_conv_Cons)

lemma two_bin_profile:
  "range_profile 2 (to_complex [[[[[- 8, 0], [12, 0]]], [[[12, 0], [- 8, 0]]]]])
     = [[[4, - 20], [4, 20]]]"
  by (simp add: range_profile_def to_complex_def fft_def sum_rows_def upt_conv_Cons
      cis_minus_pi complex_eq_iff)

lemma two_bin_peaks:
  "peak_search (numAdcSamples two_bin_cfg) (0, 2) [[[4, - 20], [4, 20]]]
     = Inr ([[0, 1]], [[4, 20]])"
  by (simp add: two_bin_cfg_def eval_defs)

lemma two_bin_stage:
  "waveform_calibrator cdiv two_bin_cfg (3 / 2) (0, 2) [[[4, - 20], [4, 20]]]
     = Inr ([[Finite 0, Finite (2 * pi * (1 / (3 / 2)) * (667 * 10 ^ 3 / (50 * 10 ^ 12)))]],
            [[[Finite (Re (cdiv 4 4)), Finite (Im (cdiv 4 4))],
              [Finite (Re (cdiv 4 20)), Finite (Im (cdiv 4 20))]]])"
  by (simp add: two_bin_cfg_def eval_defs)

lemma two_bin_run:
  "waveform_calibration cdiv [248, 255, 0, 0, 12, 0, 0, 0, 12, 0, 0, 0, 248, 255, 0, 0]
       two_bin_cfg (3 / 2)
     = Inr ([[Finite 0, Finite (2 * pi * (1 / (3 / 2)) * (667 * 10 ^ 3 / (50 * 10 ^ 12)))]],
            [[[Finite (Re (cdiv 4 4)), Finite (Im (cdiv 4 4))],
              [Finite (Re (cdiv 4 20)), Finite (Im (cdiv 4 20))]]])"
proof -
  have "waveform_calibration cdiv [248, 255, 0, 0, 12, 0, 0, 0, 12, 0, 0, 0, 248, 255, 0, 0]
       two_bin_cfg (3 / 2)
     = waveform_calibrator cdiv two_bin_cfg (3 / 2) (0, 2) [[[4, - 20], [4, 20]]]"
    using two_bin_bins two_bin_frame two_bin_profile
    by (simp add: waveform_calibration_def two_bin_cfg_def)
  then show ?thesis by (simp only: two_bin_stage)
qed

text \<open>
  Claim C1: for every range profile and every non-empty window, the peak selected for
  each antenna pair is the bin of largest magnitude of the window, and the peak value is
  the complex value of that bin.  The code breaks the claim.  It looks for the peak of
  the target in the window where the target is expected, but applies \<^verbatim>\<open>np.argmax\<close>
  and \<^verbatim>\<open>np.max\<close> to the complex values without taking their magnitude, which
  selects the bin of largest real part.  On the run above it selects bin 0 with the value
  4 for the first receiver, although bin 1 holds -20, and the frequency entry of the
  second receiver is not 0, although both receivers see the target in the same bin.
\<close>

theorem C1_largest_real_part_selected:
  "ref_bins two_bin_cfg (3 / 2) = Inr (0, 2)
   \<and> load_frame [248, 255, 0, 0, 12, 0, 0, 0, 12, 0, 0, 0, 248, 255, 0, 0] 1 2 1 2
       = Inr [[[[[- 8, 0], [12, 0]]], [[[12, 0], [- 8, 0]]]]]
   \<and> range_profile 2 (to_complex [[[[[- 8, 0], [12, 0]]], [[[12, 0], [- 8, 0]]]]])
       = [[[4, - 20], [4, 20]]]
   \<and> peak_search (numAdcSamples two_bin_cfg) (0, 2) [[[4, - 20], [4, 20]]]
       = Inr ([[0, 1]], [[4, 20]])
   \<and> cmod ([4, - 20] ! 0) < cmod ([4, - 20] ! 1)
   \<and> (\<forall>cdiv.
        waveform_calibration cdiv [248, 255, 0, 0, 12, 0, 0, 0, 12, 0, 0, 0, 248, 255, 0, 0]
          two_bin_cfg (3 / 2)
        = Inr ([[Finite 0, Finite (2 * pi * (1 / (3 / 2)) * (667 * 10 ^ 3 / (50 * 10 ^ 12)))]],
               [[[Finite (Re (cdiv 4 4)), Finite (Im (cdiv 4 4))],
                 [Finite (Re (cdiv 4 20)), Finite (Im (cdiv 4 20))]]]))"
  using two_bin_bins two_bin_frame two_bin_profile two_bin_peaks two_bin_run
  by simp

subsection \<open>A zero peak\<close>

text \<open>
  Claim C2, as stated: a zero peak at a pair other than the reference makes the
  calibration fail.  The run on the file of eight bytes above selects the peak 0 for the
  pair (0, 1) and returns; the entry of that pair is not a number.
\<close>

theorem C2_zero_peak_counterexample:
  "peak_search (numAdcSamples two_rx_cfg) (0, 1) [[[1], [0]]] = Inr ([[0, 0]], [[1, 0]])
   \<and> (\<forall>cdiv. waveform_calibration cdiv [1, 0, 0, 0, 0, 0, 0, 0] two_rx_cfg 29
       = Inr ([[Finite 0, Finite 0]],
              [[[Finite (Re (cdiv 1 1)), Finite (Im (cdiv 1 1))], [NonFinite, NonFinite]]]))"
  by (simp add: two_rx_peaks two_rx_run)

text \<open>
  Claim C2, amended: when the selected peak of a pair is exactly zero, the calibration of
  a rectangular range profile does not fail (the slope being nonzero): it returns, and
  both components of the phase and amplitude entry of that pair are NaN or infinite.
\<close>

theorem C2_zero_peak_returns_nonfinite:
  assumes "peak_search (numAdcSamples cfg) bins rfft = Inr (idx, peaks)"
    and "\<forall>r\<in>set rfft. length r = n_rx"
    and "tx < length rfft" and "rx < n_rx"
    and "frequencySlope_Mhz_us cfg \<noteq> 0"
    and "peaks ! tx ! rx = 0"
  shows "\<exists>freq phase. waveform_calibrator cdiv cfg ref bins rfft = Inr (freq, phase)
     \<and> phase ! tx ! rx = [NonFinite, NonFinite]"
proof -
  obtain lo hi where bins: "bins = (lo, hi)" by (cases bins)
  note sh = peak_search_shape [OF assms(1) [unfolded bins]]
  have ne: "rfft \<noteq> []" using assms(3) by auto
  then have "length (rfft ! 0) = n_rx" and ltx: "length (rfft ! tx) = n_rx"
    using assms(2,3) by simp_all
  then have ne0: "rfft ! 0 \<noteq> []" using assms(4) by auto
  from waveform_calibrator_ok [OF assms(1) ne ne0 assms(5)]
  obtain freq phase where w: "waveform_calibrator cdiv cfg ref bins rfft = Inr (freq, phase)"
    by blast
  then have "phase_calibration cdiv peaks = Inr phase"
    using assms(1) by (auto simp: waveform_calibrator_eq_Inr)
  from phase_calibration_entry [OF this, of tx rx]
  have "phase ! tx ! rx = [NonFinite, NonFinite]"
    using sh(2) sh(4) [OF assms(3)] assms(3,4,6) ltx by simp
  with w show ?thesis by blast
qed

theorem C2_zero_peak_witness:
  "\<forall>cdiv. \<exists>freq phase.
     waveform_calibrator cdiv two_rx_cfg 29 (0, 1) [[[1], [0]]] = Inr (freq, phase)
     \<and> phase ! 0 ! 1 = [NonFinite, NonFinite]"
proof (rule allI)
  fix cdiv
  show "\<exists>freq phase.
     waveform_calibrator cdiv two_rx_cfg 29 (0, 1) [[[1], [0]]] = Inr (freq, phase)
     \<and> phase ! 0 ! 1 = [NonFinite, NonFinite]"
    by (rule C2_zero_peak_returns_nonfinite [OF two_rx_peaks, of 2 0 1])
      (simp_all add: two_rx_cfg_def)
qed

subsection \<open>The entries of the reference antenna\<close>

text \<open>
  Claim C7, as stated: whenever the calibration returns, the entry of the pair (0, 0) is
  (1, 0).  On a file of eight zero bytes it returns, and the entry is not a number.
\<close>

theorem C7_zero_frame_counterexample:
  "\<forall>cdiv. \<exists>freq phase.
     waveform_calibration cdiv [0, 0, 0, 0, 0, 0, 0, 0] two_rx_cfg 29 = Inr (freq, phase)
     \<and> phase ! 0 ! 0 = [NonFinite, NonFinite]
     \<and> phase ! 0 ! 0 \<noteq> [Finite 1, Finite 0]"
proof (rule allI)
  fix cdiv
  have "load_frame [0, 0, 0, 0, 0, 0, 0, 0] 1 2 1 1 = Inr [[[[[0, 0]]], [[[0, 0]]]]]"
    and "range_profile 1 (to_complex [[[[[0, 0]]], [[[0, 0]]]]]) = [[[0], [0]]]"
    by (simp_all add: load_frame_def reshape5_def split_rows_def word_cat_eq upt_conv_Cons
        range_profile_def to_complex_def fft_def sum_rows_def complex_eq_iff)
  then have "waveform_calibration cdiv [0, 0, 0, 0, 0, 0, 0, 0] two_rx_cfg 29
     = waveform_calibrator cdiv two_rx_cfg 29 (0, 1) [[[0], [0]]]"
    using two_rx_bins by (simp add: waveform_calibration_def two_rx_cfg_def)
  also have "\<dots> = Inr ([[Finite 0, Finite 0]],
                       [[[NonFinite, NonFinite], [NonFinite, NonFinite]]])"
    by (simp add: two_rx_cfg_def eval_defs)
  finally show "\<exists>freq phase.
     waveform_calibration cdiv [0, 0, 0, 0, 0, 0, 0, 0] two_rx_cfg 29 = Inr (freq, phase)
     \<and> phase ! 0 ! 0 = [NonFinite, NonFinite]
     \<and> phase ! 0 ! 0 \<noteq> [Finite 1, Finite 0]"
    by simp
qed

text \<open>
  Claim C7, amended: whenever the calibration returns, the frequency entry of the pair
  (0, 0) is exactly 0 unless the reference distance is 0 (then it is a NaN).  The phase
  and amplitude entry of the pair (0, 0) is not a constant: with a zero peak of the
  reference antenna both its components are NaN, and otherwise it is the result of
  numpy's division of that peak by itself, of which nothing more is stated (its
  distance to (1, 0) is a matter of rounding).
\<close>

theorem C7_reference_entries:
  assumes "waveform_calibrator cdiv cfg ref bins rfft = Inr (freq, phase)"
    and "peak_search (numAdcSamples cfg) bins rfft = Inr (idx, peaks)"
  shows "freq ! 0 ! 0 = (if ref = 0 then NonFinite else Finite 0)
     \<and> phase ! 0 ! 0
        = (if peaks ! 0 ! 0 = 0 then [NonFinite, NonFinite]
           else [Finite (Re (cdiv (peaks ! 0 ! 0) (peaks ! 0 ! 0))),
                 Finite (Im (cdiv (peaks ! 0 ! 0) (peaks ! 0 ! 0)))])"
proof -
  from assms have ph: "phase_calibration cdiv peaks = Inr phase"
    and fr: "frequency_calibration (map (map int) idx) ref (fsample cfg) (fslope cfg) = Inr freq"
    by (auto simp: waveform_calibrator_eq_Inr)
  from ph have p: "peaks \<noteq> []" "peaks ! 0 \<noteq> []"
    by (auto simp: phase_calibration_def bind_err_eq_Inr item00_eq_Inr)
  from fr have i: "map (map int) idx \<noteq> []" "map (map int) idx ! 0 \<noteq> []"
    by (auto simp: frequency_calibration_def bind_err_eq_Inr item00_eq_Inr)
  have "phase ! 0 ! 0
        = (if peaks ! 0 ! 0 = 0 then [NonFinite, NonFinite]
           else [Finite (Re (cdiv (peaks ! 0 ! 0) (peaks ! 0 ! 0))),
                 Finite (Im (cdiv (peaks ! 0 ! 0) (peaks ! 0 ! 0)))])"
    using phase_calibration_entry [OF ph, of 0 0] p by simp
  moreover have "freq ! 0 ! 0 = (if ref = 0 then NonFinite else Finite 0)"
    using frequency_calibration_entry [OF fr, of 0 0] i by simp
  ultimately show ?thesis by simp
qed

theorem C7_reference_entries_witness:
  "\<forall>cdiv.
     waveform_calibrator cdiv two_rx_cfg 29 (0, 1) [[[1], [0]]]
       = Inr ([[Finite 0, Finite 0]],
              [[[Finite (Re (cdiv 1 1)), Finite (Im (cdiv 1 1))], [NonFinite, NonFinite]]])
     \<and> peak_search (numAdcSamples two_rx_cfg) (0, 1) [[[1], [0]]] = Inr ([[0, 0]], [[1, 0]])
     \<and> [[Finite 0, Finite 0]] ! 0 ! 0 = Finite 0
     \<and> [[[Finite (Re (cdiv 1 1)), Finite (Im (cdiv 1 1))], [NonFinite, NonFinite]]] ! 0 ! 0
         = [Finite (Re (cdiv 1 1)), Finite (Im (cdiv 1 1))]"
proof (rule allI)
  fix cdiv
  show "waveform_calibrator cdiv two_rx_cfg 29 (0, 1) [[[1], [0]]]
       = Inr ([[Finite 0, Finite 0]],
              [[[Finite (Re (cdiv 1 1)), Finite (Im (cdiv 1 1))], [NonFinite, NonFinite]]])
     \<and> peak_search (numAdcSamples two_rx_cfg) (0, 1) [[[1], [0]]] = Inr ([[0, 0]], [[1, 0]])
     \<and> [[Finite 0, Finite 0]] ! 0 ! 0 = Finite 0
     \<and> [[[Finite (Re (cdiv 1 1)), Finite (Im (cdiv 1 1))], [NonFinite, NonFinite]]] ! 0 ! 0
         = [Finite (Re (cdiv 1 1)), Finite (Im (cdiv 1 1))]"
    using C7_reference_entries [OF two_rx_stage two_rx_peaks, of cdiv]
      two_rx_stage [of cdiv] two_rx_peaks
    by simp
qed

subsection \<open>The frequency calibration\<close>

text \<open>
  Claim C8: on every run that returns, the frequency entry of every pair is
  \<open>2 pi (idx(tx,rx) - idx(0,0)) / ref (sampling_frequency / frequency_slope)\<close>, with the
  sampling frequency \<open>1000\<close> times the field in ksps and the slope \<open>10^12\<close> times the
  field in MHz/us; at the reference distance 0, where the quotient does not exist, the
  entry is a NaN or an infinity.
\<close>

theorem C8_frequency_entry:
  assumes "waveform_calibrator cdiv cfg ref bins rfft = Inr (freq, phase)"
    and "peak_search (numAdcSamples cfg) bins rfft = Inr (idx, peaks)"
    and "tx < length rfft" and "rx < length (rfft ! tx)"
  shows "freq ! tx ! rx =
     (if ref = 0 then NonFinite
      else Finite (2 * pi * ((real_of_int (int (idx ! tx ! rx) - int (idx ! 0 ! 0))) / ref)
                   * ((adcSamplingFrequency_ksps cfg * 10 ^ 3)
                       / (frequencySlope_Mhz_us cfg * 10 ^ 12))))"
proof -
  obtain lo hi where bins: "bins = (lo, hi)" by (cases bins)
  note sh = peak_search_shape [OF assms(2) [unfolded bins]]
  from assms have fr:
    "frequency_calibration (map (map int) idx) ref (fsample cfg) (fslope cfg) = Inr freq"
    by (auto simp: waveform_calibrator_eq_Inr)
  then have i: "idx \<noteq> []" "idx ! 0 \<noteq> []"
    by (auto simp: frequency_calibration_def bind_err_eq_Inr item00_eq_Inr)
  have tx: "tx < length idx" and rx: "rx < length (idx ! tx)"
    using sh(1) sh(3) [OF assms(3)] assms(3,4) by simp_all
  show ?thesis
    using frequency_calibration_entry [OF fr, of tx rx] tx rx i
    by (simp add: fsample_def fslope_def)
qed

theorem C8_frequency_entry_witness:
  "\<forall>cdiv.
     waveform_calibrator cdiv three_bin_cfg 5 (1, 3) [[[0, 1, 5], [0, 7, 2]]]
       = Inr ([[Finite 0, Finite (2 * pi * (- 1 / 5) * (10000 * 10 ^ 3 / (50 * 10 ^ 12)))]],
              [[[Finite (Re (cdiv 5 5)), Finite (Im (cdiv 5 5))],
                [Finite (Re (cdiv 5 7)), Finite (Im (cdiv 5 7))]]])
     \<and> peak_search (numAdcSamples three_bin_cfg) (1, 3) [[[0, 1, 5], [0, 7, 2]]]
         = Inr ([[1, 0]], [[5, 7]])
     \<and> [[Finite 0, Finite (2 * pi * (- 1 / 5) * (10000 * 10 ^ 3 / (50 * 10 ^ 12)))]] ! 0 ! 1
         = Finite (2 * pi * ((real_of_int (int 0 - int 1)) / 5)
                   * ((adcSamplingFrequency_ksps three_bin_cfg * 10 ^ 3)
                       / (frequencySlope_Mhz_us three_bin_cfg * 10 ^ 12)))"
proof (rule allI)
  fix cdiv
  show "waveform_calibrator cdiv three_bin_cfg 5 (1, 3) [[[0, 1, 5], [0, 7, 2]]]
       = Inr ([[Finite 0, Finite (2 * pi * (- 1 / 5) * (10000 * 10 ^ 3 / (50 * 10 ^ 12)))]],
              [[[Finite (Re (cdiv 5 5)), Finite (Im (cdiv 5 5))],
                [Finite (Re (cdiv 5 7)), Finite (Im (cdiv 5 7))]]])
     \<and> peak_search (numAdcSamples three_bin_cfg) (1, 3) [[[0, 1, 5], [0, 7, 2]]]
         = Inr ([[1, 0]], [[5, 7]])
     \<and> [[Finite 0, Finite (2 * pi * (- 1 / 5) * (10000 * 10 ^ 3 / (50 * 10 ^ 12)))]] ! 0 ! 1
         = Finite (2 * pi * ((real_of_int (int 0 - int 1)) / 5)
                   * ((adcSamplingFrequency_ksps three_bin_cfg * 10 ^ 3)
                       / (frequencySlope_Mhz_us three_bin_cfg * 10 ^ 12)))"
    using C8_frequency_entry [OF three_bin_stage [of cdiv] three_bin_peaks, of 0 1]
      three_bin_stage [of cdiv] three_bin_peaks
    by (simp add: three_bin_cfg_def)
qed

text \<open>
  Claim C10: the indices of the code are relative to the window.  The absolute bin of
  the peak of a pair is the start of the slice plus its index; the differences to the
  reference antenna are the same for both, and the frequency calibration computed from
  the absolute bins is the matrix the code returns.
\<close>

theorem C10_frequency_from_absolute_bins:
  assumes "waveform_calibrator cdiv cfg ref (lo, hi) rfft = Inr (freq, phase)"
    and "peak_search (numAdcSamples cfg) (lo, hi) rfft = Inr (idx, peaks)"
    and "\<forall>r\<in>set rfft. \<forall>x\<in>set r. length x = numAdcSamples cfg"
    and "tx < length rfft" and "rx < length (rfft ! tx)"
  shows "frequency_calibration
           (map (map (\<lambda>i. int (slice_index lo (numAdcSamples cfg) + i))) idx)
           ref (fsample cfg) (fslope cfg) = Inr freq
     \<and> rfft ! tx ! rx ! (slice_index lo (numAdcSamples cfg) + idx ! tx ! rx) = peaks ! tx ! rx
     \<and> int (slice_index lo (numAdcSamples cfg) + idx ! tx ! rx)
         - int (slice_index lo (numAdcSamples cfg) + idx ! 0 ! 0)
       = int (idx ! tx ! rx) - int (idx ! 0 ! 0)"
proof -
  let ?ns = "numAdcSamples cfg"
  let ?a = "slice_index lo ?ns"
  from assms have fr:
    "frequency_calibration (map (map int) idx) ref (fsample cfg) (fslope cfg) = Inr freq"
    by (auto simp: waveform_calibrator_eq_Inr)
  have eq: "map (map (\<lambda>i. int (?a + i))) idx = map (map (\<lambda>i. i + int ?a)) (map (map int) idx)"
    by (simp add: o_def add.commute)
  have 1: "frequency_calibration (map (map (\<lambda>i. int (?a + i))) idx) ref (fsample cfg) (fslope cfg)
      = Inr freq"
    unfolding eq by (simp only: frequency_calibration_shift fr)
  have len: "length (rfft ! tx ! rx) = ?ns"
    using assms(3,4,5) by (meson nth_mem)
  note sh = peak_search_shape [OF assms(2)]
  from argmax_py_slice [OF len sh(5)] peak_search_entry [OF assms(2,4,5)]
  have 2: "rfft ! tx ! rx ! (?a + idx ! tx ! rx) = peaks ! tx ! rx"
    by auto
  show ?thesis using 1 2 by simp
qed

theorem C10_frequency_from_absolute_bins_witness:
  "frequency_calibration [[2, 1]] 5 (fsample three_bin_cfg) (fslope three_bin_cfg)
     = Inr [[Finite 0, Finite (2 * pi * (- 1 / 5) * (10000 * 10 ^ 3 / (50 * 10 ^ 12)))]]
   \<and> frequency_calibration [[1, 0]] 5 (fsample three_bin_cfg) (fslope three_bin_cfg)
     = Inr [[Finite 0, Finite (2 * pi * (- 1 / 5) * (10000 * 10 ^ 3 / (50 * 10 ^ 12)))]]
   \<and> [[[0, 1, 5], [0, 7, 2 :: complex]]] ! 0 ! 1 ! 1 = 7"
proof -
  have "\<forall>r\<in>set [[[0, 1, 5], [0, 7, 2 :: complex]]]. \<forall>x\<in>set r.
          length x = numAdcSamples three_bin_cfg"
    by (simp add: three_bin_cfg_def)
  from C10_frequency_from_absolute_bins [OF three_bin_stage three_bin_peaks this, of 0 1]
  show ?thesis
    by (simp add: three_bin_cfg_def eval_defs)
qed

subsection \<open>Auxiliary facts: the whole run\<close>

lemma length_split_rows [simp]: "length (split_rows m n xs) = m"
  by (simp add: split_rows_def)

lemma load_frame_shape:
  assumes "load_frame buf n_tx n_rx nc ns = Inr frame"
  shows "length frame = n_tx" and "\<forall>a\<in>set frame. length a = n_rx"
  using assms
  by (auto simp: load_frame_cases split_rows_def split: if_splits)

lemma range_profile_shape:
  "length (range_profile ns (to_complex frame)) = length frame"
  "\<forall>a\<in>set frame. length a = n_rx \<Longrightarrow>
     \<forall>r\<in>set (range_profile ns (to_complex frame)). length r = n_rx"
  "\<forall>r\<in>set (range_profile ns (to_complex frame)). \<forall>x\<in>set r. length x = ns"
  by (auto simp: range_profile_def to_complex_def sum_rows_def)

lemma ref_bins_eq_Inr:
  "ref_bins cfg ref = Inr bins \<Longrightarrow>
     frequencySlope_Mhz_us cfg \<noteq> 0 \<and> adcSamplingFrequency_ksps cfg \<noteq> 0 \<and> numAdcSamples cfg \<noteq> 0"
  by (auto simp: ref_bins_def bind_err_eq_Inr py_truediv_def fslope_def fsample_def C_def
      split: if_splits)

lemma ref_bins_total:
  assumes "frequencySlope_Mhz_us cfg \<noteq> 0" "adcSamplingFrequency_ksps cfg \<noteq> 0"
    "numAdcSamples cfg \<noteq> 0"
  shows "\<exists>lo hi. ref_bins cfg ref = Inr (lo, hi)"
  using assms
  by (simp add: ref_bins_def py_truediv_def fslope_def fsample_def C_def)

lemma peak_search_empty_window:
  "slice_index hi ns \<le> slice_index lo ns \<Longrightarrow> peak_search ns (lo, hi) rfft = Inl ValueError"
  by (simp add: peak_search_def argmax_axis_def)

lemma waveform_calibrator_empty_window:
  "slice_index hi (numAdcSamples cfg) \<le> slice_index lo (numAdcSamples cfg) \<Longrightarrow>
     waveform_calibrator cdiv cfg ref (lo, hi) rfft = Inl ValueError"
  by (simp add: waveform_calibrator_def peak_search_empty_window)

lemma waveform_calibration_unfold:
  assumes "ref_bins cfg ref = Inr bins"
    and "load_frame buf (cfg_ntx cfg) (cfg_nrx cfg) (numChirpLoops cfg) (numAdcSamples cfg) = Inr frame"
  shows "waveform_calibration cdiv buf cfg ref
     = waveform_calibrator cdiv cfg ref bins (range_profile (numAdcSamples cfg) (to_complex frame))"
  using assms by (simp add: waveform_calibration_def)

lemma waveform_calibration_cases:
  assumes rb: "ref_bins cfg ref = Inr (lo, hi)"
    and ld: "load_frame buf (cfg_ntx cfg) (cfg_nrx cfg) (numChirpLoops cfg) (numAdcSamples cfg) = Inr frame"
    and pos: "0 < cfg_ntx cfg" "0 < cfg_nrx cfg"
  shows "slice_index hi (numAdcSamples cfg) \<le> slice_index lo (numAdcSamples cfg) \<Longrightarrow>
           waveform_calibration cdiv buf cfg ref = Inl ValueError"
    and "slice_index lo (numAdcSamples cfg) < slice_index hi (numAdcSamples cfg) \<Longrightarrow>
           \<exists>freq phase. waveform_calibration cdiv buf cfg ref = Inr (freq, phase)"
proof -
  let ?ns = "numAdcSamples cfg"
  let ?rfft = "range_profile ?ns (to_complex frame)"
  note unf = waveform_calibration_unfold [OF rb ld]
  show "waveform_calibration cdiv buf cfg ref = Inl ValueError"
    if "slice_index hi ?ns \<le> slice_index lo ?ns"
    using that by (simp add: unf waveform_calibrator_empty_window)
  show "\<exists>freq phase. waveform_calibration cdiv buf cfg ref = Inr (freq, phase)"
    if ne: "slice_index lo ?ns < slice_index hi ?ns"
  proof -
    note fs = load_frame_shape [OF ld]
    have len: "length ?rfft = cfg_ntx cfg"
      by (simp add: range_profile_shape(1) fs(1))
    have rows: "\<forall>r\<in>set ?rfft. length r = cfg_nrx cfg"
      by (rule range_profile_shape(2) [OF fs(2)])
    have ne1: "?rfft \<noteq> []"
      using len pos(1) by auto
    then have "?rfft ! 0 \<in> set ?rfft"
      by simp
    then have ne2: "?rfft ! 0 \<noteq> []"
      using rows pos(2) by fastforce
    from peak_search_ok [OF range_profile_shape(3) ne]
    obtain idx peaks where ps: "peak_search ?ns (lo, hi) ?rfft = Inr (idx, peaks)"
      by blast
    from ref_bins_eq_Inr [OF rb] have "frequencySlope_Mhz_us cfg \<noteq> 0"
      by simp
    from waveform_calibrator_ok [OF ps ne1 ne2 this]
    show ?thesis
      by (simp add: unf)
  qed
qed

lemma sample_bins_near: "ref_bins sample_cfg (1 / 2) = Inr (- 4, 12)"
  by (simp add: sample_cfg_def ref_bins_def py_truediv_def fsample_def
      fslope_def C_def py_int_def)

lemma sample_bins_far: "ref_bins sample_cfg (59 / 2) = Inr (243, 260)"
  by (simp add: sample_cfg_def ref_bins_def py_truediv_def fsample_def
      fslope_def C_def py_int_def)

lemma sample_load:
  "\<exists>frame. load_frame (replicate 1024 0) (cfg_ntx sample_cfg) (cfg_nrx sample_cfg)
       (numChirpLoops sample_cfg) (numAdcSamples sample_cfg) = Inr frame"
  by (simp add: load_frame_cases sample_cfg_def)

lemma slice_index_from_end:
  assumes "lo < 0"
  shows "slice_index (int (nat (max 0 (lo + int ns)))) ns = slice_index lo ns"
    and "slice_index lo ns = nat (max 0 (lo + int ns))"
  using assms by (auto simp: slice_index_def)

lemma peak_search_from_end:
  assumes "lo < 0" and "\<forall>r\<in>set rfft. \<forall>x\<in>set r. length x = ns"
  shows "peak_search ns (lo, hi) rfft = peak_search ns (int (nat (max 0 (lo + int ns))), hi) rfft"
proof -
  let ?s = "int (nat (max 0 (lo + int ns)))"
  have e: "slice_index ?s ns = slice_index lo ns"
    by (rule slice_index_from_end(1) [OF assms(1)])
  have "py_slice lo hi x = py_slice ?s hi x" if "r \<in> set rfft" "x \<in> set r" for r x
  proof -
    from that assms(2) have "length x = ns" by blast
    then show ?thesis
      using e by (simp only: py_slice_def Let_def)
  qed
  then have "map (map (py_slice lo hi)) rfft = map (map (py_slice ?s hi)) rfft"
    by (simp only: map_eq_conv) blast
  then show ?thesis
    using e by (simp only: peak_search_def Let_def fst_conv snd_conv)
qed

lemma short_bins: "ref_bins short_range_cfg (1 / 2) = Inr (- 2, 8)"
  by (simp add: short_range_cfg_def ref_bins_def py_truediv_def fsample_def
      fslope_def C_def py_int_def)

lemma short_load:
  "\<exists>frame. load_frame (replicate 32 0) (cfg_ntx short_range_cfg) (cfg_nrx short_range_cfg)
       (numChirpLoops short_range_cfg) (numAdcSamples short_range_cfg) = Inr frame"
  by (simp add: load_frame_cases short_range_cfg_def)

lemma sample_run_far:
  "\<exists>freq phase.
     waveform_calibration cdiv (replicate 1024 0) sample_cfg (59 / 2) = Inr (freq, phase)"
proof -
  from sample_load obtain frame where
    ld: "load_frame (replicate 1024 0) (cfg_ntx sample_cfg) (cfg_nrx sample_cfg)
       (numChirpLoops sample_cfg) (numAdcSamples sample_cfg) = Inr frame"
    by blast
  show ?thesis
    by (rule waveform_calibration_cases(2) [OF sample_bins_far ld])
      (simp_all add: sample_cfg_def slice_index_def)
qed

lemma sample_run_near:
  "waveform_calibration cdiv (replicate 1024 0) sample_cfg (1 / 2) = Inl ValueError"
proof -
  from sample_load obtain frame where
    ld: "load_frame (replicate 1024 0) (cfg_ntx sample_cfg) (cfg_nrx sample_cfg)
       (numChirpLoops sample_cfg) (numAdcSamples sample_cfg) = Inr frame"
    by blast
  show ?thesis
    by (rule waveform_calibration_cases(1) [OF sample_bins_near ld])
      (simp_all add: sample_cfg_def slice_index_def)
qed

text \<open>The low bound is negative exactly when the quotient is at most -1.\<close>

lemma py_int_negative_iff: "py_int x < 0 \<longleftrightarrow> x \<le> - 1"
  by (auto simp: py_int_def ceiling_less_iff)

subsection \<open>Windows that leave the sample axis\<close>

text \<open>
  Claim C3, as stated: a window that is empty or not inside \<open>[0, nsample)\<close> makes the
  locator fail.  For the sample configuration and a target at 29.5 m the window is
  \<open>[243, 260)\<close>, beyond the 256 bins; the bounds are returned and the run on a frame of
  zeros returns a result.
\<close>

theorem C3_out_of_bounds_counterexample:
  "ref_bins sample_cfg (59 / 2) = Inr (243, 260)
   \<and> \<not> 260 \<le> int (numAdcSamples sample_cfg)
   \<and> (\<forall>cdiv. \<exists>freq phase.
         waveform_calibration cdiv (replicate 1024 0) sample_cfg (59 / 2) = Inr (freq, phase))"
  using sample_bins_far sample_run_far by (simp add: sample_cfg_def)

text \<open>
  Claim C3, amended: the window is never checked.  For a nonzero slope, sampling
  frequency and number of samples the locator returns its two bounds whatever they are;
  on a well-formed frame of at least one antenna pair the run then proceeds with the
  bounds clipped by the slice (a negative bound counting from the end of the axis), and
  it returns a result when the clipped window is not empty; when it is empty the run
  fails in the peak search, with a \<open>ValueError\<close>.
\<close>

theorem C3_window_never_checked:
  assumes "frequencySlope_Mhz_us cfg \<noteq> 0" and "adcSamplingFrequency_ksps cfg \<noteq> 0"
    and "numAdcSamples cfg \<noteq> 0"
    and "length buf div 2
          = cfg_ntx cfg * cfg_nrx cfg * numChirpLoops cfg * numAdcSamples cfg * 2"
    and "0 < cfg_ntx cfg" and "0 < cfg_nrx cfg"
  shows "\<exists>lo hi. ref_bins cfg ref = Inr (lo, hi)
     \<and> (if slice_index lo (numAdcSamples cfg) < slice_index hi (numAdcSamples cfg)
         then \<exists>freq phase. waveform_calibration cdiv buf cfg ref = Inr (freq, phase)
         else waveform_calibration cdiv buf cfg ref = Inl ValueError)"
proof -
  from ref_bins_total [OF assms(1,2,3)]
  obtain lo hi where rb: "ref_bins cfg ref = Inr (lo, hi)"
    by blast
  from assms(4) obtain frame where
    ld: "load_frame buf (cfg_ntx cfg) (cfg_nrx cfg) (numChirpLoops cfg) (numAdcSamples cfg)
          = Inr frame"
    by (simp add: load_frame_cases)
  note cases = waveform_calibration_cases [OF rb ld assms(5,6)]
  show ?thesis
    using rb cases by (cases "slice_index lo (numAdcSamples cfg) < slice_index hi (numAdcSamples cfg)") auto
qed

theorem C3_window_never_checked_witness:
  "\<forall>cdiv. \<exists>freq phase.
     waveform_calibration cdiv (replicate 1024 0) sample_cfg 5 = Inr (freq, phase)"
proof (rule allI)
  fix cdiv
  have "ref_bins sample_cfg 5 = Inr (34, 51)"
    by (simp add: sample_cfg_def ref_bins_def py_truediv_def fsample_def
      fslope_def C_def py_int_def)
  then show "\<exists>freq phase.
     waveform_calibration cdiv (replicate 1024 0) sample_cfg 5 = Inr (freq, phase)"
    using C3_window_never_checked [of sample_cfg "replicate 1024 0" 5 cdiv]
    by (simp add: sample_cfg_def slice_index_def)
qed

text \<open>
  Claim C9, as stated: with a negative quotient \<open>(ref - 1) / resolution\<close> the run does
  not fail.  For the sample configuration and a target at 0.5 m the quotient is about
  -4.27, the window is \<open>[-4, 12)\<close>, which the slice reads as the empty \<open>[252, 12)\<close>,
  and the run on a frame of zeros fails.
\<close>

theorem C9_negative_bound_counterexample:
  "((1 / 2 :: real) - 1) / ((10000 * 10 ^ 3 * 299792458 / (2 * (50 * 10 ^ 12))) / 256) < 0
   \<and> ref_bins sample_cfg (1 / 2) = Inr (- 4, 12)
   \<and> (\<forall>cdiv. waveform_calibration cdiv (replicate 1024 0) sample_cfg (1 / 2)
         = Inl ValueError)"
  using sample_bins_near sample_run_near by simp

text \<open>
  Claim C9, amended: when the low bound, rounded towards zero, is negative (the quotient
  \<open>(ref - 1) / resolution\<close> is at most -1), no error is reported for it: on a well-formed
  frame of at least one antenna pair the run is the calibration over the window that
  starts at \<open>max 0 (nsample + lo)\<close>, counted from the end of the sample axis.  It
  returns a result when that start is below the clipped high bound, and fails with the
  \<open>ValueError\<close> of the peak search when the window is empty.
\<close>

theorem C9_negative_low_bound:
  assumes "ref_bins cfg ref = Inr (lo, hi)" and "lo < 0"
    and "load_frame buf (cfg_ntx cfg) (cfg_nrx cfg) (numChirpLoops cfg) (numAdcSamples cfg)
          = Inr frame"
    and "0 < cfg_ntx cfg" and "0 < cfg_nrx cfg"
  shows "waveform_calibration cdiv buf cfg ref
       = waveform_calibrator cdiv cfg ref (int (nat (max 0 (lo + int (numAdcSamples cfg)))), hi)
           (range_profile (numAdcSamples cfg) (to_complex frame))
     \<and> (slice_index hi (numAdcSamples cfg) \<le> nat (max 0 (lo + int (numAdcSamples cfg)))
          \<longrightarrow> waveform_calibration cdiv buf cfg ref = Inl ValueError)
     \<and> (nat (max 0 (lo + int (numAdcSamples cfg))) < slice_index hi (numAdcSamples cfg)
          \<longrightarrow> (\<exists>freq phase. waveform_calibration cdiv buf cfg ref = Inr (freq, phase)))"
proof -
  let ?ns = "numAdcSamples cfg"
  let ?rfft = "range_profile ?ns (to_complex frame)"
  have "peak_search ?ns (lo, hi) ?rfft
      = peak_search ?ns (int (nat (max 0 (lo + int ?ns))), hi) ?rfft"
    by (rule peak_search_from_end [OF assms(2) range_profile_shape(3)])
  then have "waveform_calibrator cdiv cfg ref (lo, hi) ?rfft
      = waveform_calibrator cdiv cfg ref (int (nat (max 0 (lo + int ?ns))), hi) ?rfft"
    by (simp add: waveform_calibrator_def)
  then have 1: "waveform_calibration cdiv buf cfg ref
      = waveform_calibrator cdiv cfg ref (int (nat (max 0 (lo + int ?ns))), hi) ?rfft"
    by (simp add: waveform_calibration_unfold [OF assms(1,3)])
  note cases = waveform_calibration_cases [OF assms(1,3,4,5), where cdiv = cdiv]
  have start: "slice_index lo ?ns = nat (max 0 (lo + int ?ns))"
    by (rule slice_index_from_end(2) [OF assms(2)])
  show ?thesis
    using 1 cases by (simp add: start)
qed

theorem C9_negative_low_bound_witness:
  "(\<forall>cdiv. waveform_calibration cdiv (replicate 1024 0) sample_cfg (1 / 2) = Inl ValueError)
   \<and> (\<forall>cdiv. \<exists>freq phase.
         waveform_calibration cdiv (replicate 32 0) short_range_cfg (1 / 2) = Inr (freq, phase))"
proof -
  from sample_load obtain f1 where
    l1: "load_frame (replicate 1024 0) (cfg_ntx sample_cfg) (cfg_nrx sample_cfg)
       (numChirpLoops sample_cfg) (numAdcSamples sample_cfg) = Inr f1"
    by blast
  from short_load obtain f2 where
    l2: "load_frame (replicate 32 0) (cfg_ntx short_range_cfg) (cfg_nrx short_range_cfg)
       (numChirpLoops short_range_cfg) (numAdcSamples short_range_cfg) = Inr f2"
    by blast
  have neg: "(- 4 :: int) < 0" "(- 2 :: int) < 0"
    by simp_all
  have p1: "0 < cfg_ntx sample_cfg" "0 < cfg_nrx sample_cfg"
    and p2: "0 < cfg_ntx short_range_cfg" "0 < cfg_nrx short_range_cfg"
    by (simp_all add: sample_cfg_def short_range_cfg_def)
  have a: "waveform_calibration cdiv (replicate 1024 0) sample_cfg (1 / 2) = Inl ValueError"
    for cdiv
    by (rule C9_negative_low_bound [OF sample_bins_near neg(1) l1 p1, THEN conjunct2,
          THEN conjunct1, rule_format])
      (simp add: sample_cfg_def slice_index_def)
  have b: "\<exists>freq phase. waveform_calibration cdiv (replicate 32 0) short_range_cfg (1 / 2)
      = Inr (freq, phase)" for cdiv
    by (rule C9_negative_low_bound [OF short_bins neg(2) l2 p2, THEN conjunct2,
          THEN conjunct2, rule_format])
      (simp add: short_range_cfg_def slice_index_def)
  from a b show ?thesis by simp
qed

subsection \<open>Auxiliary facts: the layout of a frame and the mean of a block\<close>

lemma row_index_less:
  fixes i j m n :: nat
  assumes "i < m" and "j < n"
  shows "i * n + j < m * n"
proof -
  have "i * n + j < i * n + n" using assms(2) by simp
  also have "\<dots> = Suc i * n" by simp
  also have "\<dots> \<le> m * n" using assms(1) by (intro mult_le_mono1) simp
  finally show ?thesis .
qed

lemma split_rows_nth: "i < m \<Longrightarrow> split_rows m n xs ! i = take n (drop (i * n) xs)"
  by (simp add: split_rows_def)

lemma length_split_rows_nth:
  assumes "i < m" and "length xs = m * n"
  shows "length (split_rows m n xs ! i) = n"
proof -
  have "Suc i * n \<le> m * n"
    using assms(1) by (intro mult_le_mono1) simp
  then have "n \<le> m * n - i * n" by simp
  then show ?thesis
    using assms by (simp add: split_rows_nth)
qed

lemma nth_split_rows_nth:
  assumes "i < m" and "j < n" and "length xs = m * n"
  shows "split_rows m n xs ! i ! j = xs ! (i * n + j)"
proof -
  have "i * n \<le> length xs"
    using assms(1,3) by simp
  then show ?thesis
    using assms(1,2) by (simp add: split_rows_nth)
qed

lemma load_frame_nth:
  assumes ld: "load_frame buf n_tx n_rx nc ns = Inr frame"
    and "tx < n_tx" and "rx < n_rx" and "c < nc" and "s < ns" and "k < 2"
  shows "frame ! tx ! rx ! c ! s ! k
     = fromfile_int16 buf ! ((((tx * n_rx + rx) * nc + c) * ns + s) * 2 + k)"
    and "length (frame ! tx ! rx) = nc" and "length (frame ! tx ! rx ! c) = ns"
proof -
  let ?xs = "fromfile_int16 buf"
  let ?A = "split_rows n_tx (n_rx * nc * ns * 2) ?xs ! tx"
  let ?B = "split_rows n_rx (nc * ns * 2) ?A ! rx"
  let ?C = "split_rows nc (ns * 2) ?B ! c"
  from ld have len: "length ?xs = n_tx * (n_rx * nc * ns * 2)"
    and frame: "frame = map (\<lambda>a. map (\<lambda>b. map (\<lambda>c. split_rows ns 2 c)
                                   (split_rows nc (ns * 2) b))
                         (split_rows n_rx (nc * ns * 2) a))
                (split_rows n_tx (n_rx * nc * ns * 2) ?xs)"
    by (auto simp: load_frame_cases length_fromfile_int16 mult.assoc split: if_splits)
  have lA: "length ?A = n_rx * (nc * ns * 2)"
    using length_split_rows_nth [OF assms(2) len] by (simp add: mult.assoc)
  have lB: "length ?B = nc * (ns * 2)"
    using length_split_rows_nth [OF assms(3) lA] by (simp add: mult.assoc)
  have lC: "length ?C = ns * 2"
    by (rule length_split_rows_nth [OF assms(4) lB])
  have f: "frame ! tx ! rx = map (split_rows ns 2) (split_rows nc (ns * 2) ?B)"
    using assms(2,3) by (simp add: frame)
  show "length (frame ! tx ! rx) = nc"
    by (simp add: f)
  have fc: "frame ! tx ! rx ! c = split_rows ns 2 ?C"
    using assms(4) by (simp add: f)
  show "length (frame ! tx ! rx ! c) = ns"
    by (simp add: fc)
  have i1: "s * 2 + k < ns * 2"
    by (rule row_index_less [OF assms(5,6)])
  have i2: "c * (ns * 2) + (s * 2 + k) < nc * (ns * 2)"
    by (rule row_index_less [OF assms(4) i1])
  have i3: "rx * (nc * ns * 2) + (c * (ns * 2) + (s * 2 + k)) < n_rx * nc * ns * 2"
    using row_index_less [OF assms(3), of "c * (ns * 2) + (s * 2 + k)" "nc * ns * 2"] i2
    by (simp add: mult.assoc)
  have "frame ! tx ! rx ! c ! s ! k = ?C ! (s * 2 + k)"
    by (simp add: fc nth_split_rows_nth [OF assms(5,6) lC])
  also have "\<dots> = ?B ! (c * (ns * 2) + (s * 2 + k))"
    by (rule nth_split_rows_nth [OF assms(4) i1 lB])
  also have "\<dots> = ?A ! (rx * (nc * ns * 2) + (c * (ns * 2) + (s * 2 + k)))"
    using nth_split_rows_nth [OF assms(3) _ lA, of "c * (ns * 2) + (s * 2 + k)"] i2
    by (simp add: mult.assoc)
  also have "\<dots> = ?xs ! (tx * (n_rx * nc * ns * 2)
                         + (rx * (nc * ns * 2) + (c * (ns * 2) + (s * 2 + k))))"
    by (rule nth_split_rows_nth [OF assms(2) i3 len])
  also have "tx * (n_rx * nc * ns * 2) + (rx * (nc * ns * 2) + (c * (ns * 2) + (s * 2 + k)))
      = (((tx * n_rx + rx) * nc + c) * ns + s) * 2 + k"
    by (simp add: algebra_simps)
  finally show "frame ! tx ! rx ! c ! s ! k
     = fromfile_int16 buf ! ((((tx * n_rx + rx) * nc + c) * ns + s) * 2 + k)" .
qed

lemma sum_list_map_concat:
  "sum_list (map f (concat xss)) = sum_list (map (\<lambda>xs. sum_list (map f xs)) xss)"
  by (induction xss) simp_all

lemma sum_list_map_nth:
  "sum_list (map f xs) = (\<Sum>i<length xs. f (xs ! i))"
  for f :: "'a \<Rightarrow> int"
proof -
  have "sum_list (map f xs) = (\<Sum>i = 0..<length xs. map f xs ! i)"
    using sum_list_sum_nth [of "map f xs"] by simp
  also have "\<dots> = (\<Sum>i = 0..<length xs. f (xs ! i))"
    by (rule sum.cong) simp_all
  finally show ?thesis
    by (simp add: atLeast0LessThan)
qed

lemma mean_axes23_block:
  assumes "length block = nc" and "\<forall>c<nc. length (block ! c) = ns" and "0 < nc" and "0 < ns"
  shows "mean_axes23 block
     = [Finite (real_of_int (\<Sum>c<nc. \<Sum>s<ns. sint (block ! c ! s ! 0)) / real (nc * ns)),
        Finite (real_of_int (\<Sum>c<nc. \<Sum>s<ns. sint (block ! c ! s ! 1)) / real (nc * ns))]"
proof -
  have len: "length (concat block) = nc * ns"
  proof -
    have "length (concat block) = sum_list (map length block)"
      by (simp add: length_concat)
    also have "map length block = replicate nc ns"
      using assms(1,2) by (intro nth_equalityI) simp_all
    finally show ?thesis by (simp add: sum_list_replicate)
  qed
  with assms(3,4) have "0 < length (concat block)"
    by simp
  then have ne: "concat block \<noteq> []"
    by (metis length_greater_0_conv)
  have total: "sum_list (map sint (map (\<lambda>iq. iq ! k) (concat block)))
      = (\<Sum>c<nc. \<Sum>s<ns. sint (block ! c ! s ! k))" for k
  proof -
    have "sum_list (map sint (map (\<lambda>iq. iq ! k) (concat block)))
        = sum_list (map (\<lambda>iq. sint (iq ! k)) (concat block))"
      by (simp add: o_def)
    also have "\<dots> = sum_list (map (\<lambda>row. sum_list (map (\<lambda>iq. sint (iq ! k)) row)) block)"
      by (rule sum_list_map_concat)
    also have "\<dots> = (\<Sum>c<length block. sum_list (map (\<lambda>iq. sint (iq ! k)) (block ! c)))"
      by (rule sum_list_map_nth)
    also have "\<dots> = (\<Sum>c<nc. \<Sum>s<ns. sint (block ! c ! s ! k))"
      using assms(1,2) by (intro sum.cong) (simp_all add: sum_list_map_nth)
    finally show ?thesis .
  qed
  show ?thesis
    using ne len total [of 0] total [of 1]
    by (simp add: mean_axes23_def mean_def upt_conv_Cons del: map_map)
qed

lemma small_frame_items:
  "fromfile_int16 [1, 0, 2, 0, 3, 0, 4, 0, 5, 0, 6, 0, 7, 0, 248, 255]
     = [1, 2, 3, 4, 5, 6, 7, - 8]"
  by (simp add: word_cat_eq)

subsection \<open>Coupling calibration\<close>

text \<open>
  Claim C6: for a frame that loads, with at least one chirp and one sample, the coupling
  entry of the pair \<open>(tx, rx)\<close> is the pair of the mean of the I samples and the mean
  of the Q samples of that antenna pair, over the \<open>nchirp * nsample\<close> positions
  \<open>(chirp, sample)\<close> and over nothing else.  The I sample of \<open>(tx, rx, c, s)\<close> is
  the item \<open>(((tx * nrx + rx) * nchirp + c) * nsample + s) * 2\<close> of the file, the Q
  sample the next one.
\<close>

theorem C6_coupling_entry_is_mean:
  assumes "load_frame buf n_tx n_rx nc ns = Inr frame"
    and "0 < nc" and "0 < ns" and "tx < n_tx" and "rx < n_rx"
  shows "\<exists>cm. coupling_calibration buf n_tx n_rx nc ns = Inr cm
     \<and> cm ! tx ! rx
        = [Finite (real_of_int (\<Sum>c<nc. \<Sum>s<ns.
              sint (fromfile_int16 buf ! ((((tx * n_rx + rx) * nc + c) * ns + s) * 2)))
             / real (nc * ns)),
           Finite (real_of_int (\<Sum>c<nc. \<Sum>s<ns.
              sint (fromfile_int16 buf ! ((((tx * n_rx + rx) * nc + c) * ns + s) * 2 + 1)))
             / real (nc * ns))]"
proof -
  let ?block = "frame ! tx ! rx"
  have cc: "coupling_calibration buf n_tx n_rx nc ns = Inr (map (map mean_axes23) frame)"
    using assms(1) by (simp add: coupling_calibration_def)
  have shape: "length frame = n_tx" "length (frame ! tx) = n_rx"
    using assms(1,4) by (auto simp: load_frame_cases split: if_splits)
  have entry: "map (map mean_axes23) frame ! tx ! rx = mean_axes23 ?block"
    using shape assms(4,5) by simp
  have l1: "length ?block = nc"
    using load_frame_nth(2) [OF assms(1,4,5) assms(2) assms(3), of 0] by simp
  have l2: "\<forall>c<nc. length (?block ! c) = ns"
    using load_frame_nth(3) [OF assms(1,4,5) _ assms(3), of _ 0] by simp
  have nth0: "sint (?block ! c ! s ! 0)
      = sint (fromfile_int16 buf ! ((((tx * n_rx + rx) * nc + c) * ns + s) * 2))"
    and nth1: "sint (?block ! c ! s ! 1)
      = sint (fromfile_int16 buf ! ((((tx * n_rx + rx) * nc + c) * ns + s) * 2 + 1))"
    if "c < nc" "s < ns" for c s
    using load_frame_nth(1) [OF assms(1,4,5) that, of 0]
      load_frame_nth(1) [OF assms(1,4,5) that, of 1] by simp_all
  have sums0: "(\<Sum>c<nc. \<Sum>s<ns. sint (?block ! c ! s ! 0))
      = (\<Sum>c<nc. \<Sum>s<ns.
           sint (fromfile_int16 buf ! ((((tx * n_rx + rx) * nc + c) * ns + s) * 2)))"
    by (intro sum.cong refl nth0) simp_all
  have sums1: "(\<Sum>c<nc. \<Sum>s<ns. sint (?block ! c ! s ! 1))
      = (\<Sum>c<nc. \<Sum>s<ns.
           sint (fromfile_int16 buf ! ((((tx * n_rx + rx) * nc + c) * ns + s) * 2 + 1)))"
    by (intro sum.cong refl nth1) simp_all
  have "mean_axes23 ?block
     = [Finite (real_of_int (\<Sum>c<nc. \<Sum>s<ns. sint (?block ! c ! s ! 0)) / real (nc * ns)),
        Finite (real_of_int (\<Sum>c<nc. \<Sum>s<ns. sint (?block ! c ! s ! 1)) / real (nc * ns))]"
    by (rule mean_axes23_block [OF l1 l2 assms(2,3)])
  then have "mean_axes23 ?block
     = [Finite (real_of_int (\<Sum>c<nc. \<Sum>s<ns.
              sint (fromfile_int16 buf ! ((((tx * n_rx + rx) * nc + c) * ns + s) * 2)))
             / real (nc * ns)),
        Finite (real_of_int (\<Sum>c<nc. \<Sum>s<ns.
              sint (fromfile_int16 buf ! ((((tx * n_rx + rx) * nc + c) * ns + s) * 2 + 1)))
             / real (nc * ns))]"
    by (simp only: sums0 sums1)
  with cc entry show ?thesis
    by simp
qed

text \<open>
  One antenna pair, two chirps of two samples: I = 1, 3, 5, 7 and Q = 2, 4, 6, -8, of
  means 4 and 1.
\<close>

theorem C6_coupling_small_frame_witness:
  "\<exists>cm. coupling_calibration [1, 0, 2, 0, 3, 0, 4, 0, 5, 0, 6, 0, 7, 0, 248, 255] 1 1 2 2 = Inr cm
     \<and> cm ! 0 ! 0 = [Finite 4, Finite 1]"
proof -
  obtain frame where
    ld: "load_frame [1, 0, 2, 0, 3, 0, 4, 0, 5, 0, 6, 0, 7, 0, 248, 255] 1 1 2 2 = Inr frame"
    by (simp add: load_frame_cases)
  have two: "{..<2::nat} = {0, 1}"
    by auto
  from C6_coupling_entry_is_mean [OF ld, of 0 0] show ?thesis
    by (simp add: small_frame_items two word_cat_eq)
qed

end
